theory Spec2Isabelle
  imports Complex_Main
begin

section \<open>Errors and tensors\<close>

text \<open>
  The exceptions that the code of \<^verbatim>\<open>models/fcn.py\<close> and the torch operations it calls can
  raise. Every raise of the source is a value \<open>Inl e\<close> of the model.
\<close>

datatype error = RuntimeError string | KeyError string | ValueError string | AttributeError string

text \<open>
  A 4-D tensor \<open>[batch, channels, height, width]\<close>: its size, and its entries as a function
  of the four indices. Entries are real numbers: the development idealises floating point.
\<close>

record tensor =
  bsz :: nat
  chans :: nat
  hgt :: nat
  wid :: nat
  val :: "nat \<Rightarrow> nat \<Rightarrow> nat \<Rightarrow> nat \<Rightarrow> real"

text \<open>
  The state of torch's random generator, as the stream of the keep-masks that the coming
  calls of dropout will draw (\<open>True\<close>: the entry is kept).
\<close>

type_synonym rng = "nat \<Rightarrow> nat \<Rightarrow> nat \<Rightarrow> nat \<Rightarrow> nat \<Rightarrow> bool"

definition zeros_like :: "tensor \<Rightarrow> tensor" where
  "zeros_like t = t\<lparr>val := (\<lambda>n c y x. 0)\<rparr>"

section \<open>The torch modules used by the source\<close>

text \<open>
  \<open>Conv2d in_channels out_channels kernel_size padding weight bias\<close> (stride 1),
  \<open>BatchNorm2d num_features weight bias running_mean running_var num_batches_tracked\<close>,
  \<open>ReLU\<close>, \<open>Dropout p\<close>, \<open>MaxPool2d kernel_size stride\<close>.
\<close>

datatype layer =
    Conv2d nat nat nat nat "nat \<Rightarrow> nat \<Rightarrow> nat \<Rightarrow> nat \<Rightarrow> real" "(nat \<Rightarrow> real) option"
  | BatchNorm2d nat "nat \<Rightarrow> real" "nat \<Rightarrow> real" "nat \<Rightarrow> real" "nat \<Rightarrow> real" nat
  | ReLU
  | Dropout real
  | MaxPool2d nat nat

text \<open>The architecture of a module: the module without its parameters and buffers.\<close>

datatype arch =
    AConv2d nat nat nat nat bool
  | ABatchNorm2d nat
  | AReLU
  | ADropout real
  | AMaxPool2d nat nat

fun arch_of :: "layer \<Rightarrow> arch" where
  "arch_of (Conv2d cin cout k p w b) = AConv2d cin cout k p (b \<noteq> None)"
| "arch_of (BatchNorm2d c g be rm rv nbt) = ABatchNorm2d c"
| "arch_of ReLU = AReLU"
| "arch_of (Dropout p) = ADropout p"
| "arch_of (MaxPool2d k s) = AMaxPool2d k s"

text \<open>Zero padding: the entry of the padded input at row \<open>yy\<close>, column \<open>xx\<close>.\<close>

definition padded :: "tensor \<Rightarrow> nat \<Rightarrow> nat \<Rightarrow> nat \<Rightarrow> nat \<Rightarrow> nat \<Rightarrow> real" where
  "padded x p n c yy xx =
     (if p \<le> yy \<and> yy < hgt x + p \<and> p \<le> xx \<and> xx < wid x + p
      then val x n c (yy - p) (xx - p) else 0)"

definition conv2d ::
  "nat \<Rightarrow> nat \<Rightarrow> nat \<Rightarrow> nat \<Rightarrow> (nat \<Rightarrow> nat \<Rightarrow> nat \<Rightarrow> nat \<Rightarrow> real) \<Rightarrow> (nat \<Rightarrow> real) option
     \<Rightarrow> tensor \<Rightarrow> error + tensor" where
  "conv2d cin cout k p w b x =
     (if cin = 0 \<or> cout = 0 then Inl (RuntimeError ''conv2d: weight without channels'')
      else if chans x \<noteq> cin then Inl (RuntimeError ''conv2d: wrong number of input channels'')
      else if hgt x + 2 * p < k \<or> wid x + 2 * p < k
      then Inl (RuntimeError ''conv2d: kernel size greater than padded input size'')
      else Inr \<lparr>bsz = bsz x, chans = cout,
                hgt = hgt x + 2 * p + 1 - k, wid = wid x + 2 * p + 1 - k,
                val = (\<lambda>n oc y xx.
                  (case b of None \<Rightarrow> 0 | Some bb \<Rightarrow> bb oc) +
                  (\<Sum>c<cin. \<Sum>i<k. \<Sum>j<k. w oc c i j * padded x p n c (y + i) (xx + j)))\<rparr>)"

definition bn_eps :: real where
  "bn_eps = 1 / 100000"

definition bn_momentum :: real where
  "bn_momentum = 1 / 10"

definition batch_mean :: "tensor \<Rightarrow> nat \<Rightarrow> real" where
  "batch_mean x c =
     (\<Sum>n<bsz x. \<Sum>y<hgt x. \<Sum>xx<wid x. val x n c y xx) / real (bsz x * hgt x * wid x)"

definition batch_var :: "tensor \<Rightarrow> nat \<Rightarrow> real" where
  "batch_var x c =
     (\<Sum>n<bsz x. \<Sum>y<hgt x. \<Sum>xx<wid x. (val x n c y xx - batch_mean x c)\<^sup>2)
       / real (bsz x * hgt x * wid x)"

definition normalize ::
  "(nat \<Rightarrow> real) \<Rightarrow> (nat \<Rightarrow> real) \<Rightarrow> (nat \<Rightarrow> real) \<Rightarrow> (nat \<Rightarrow> real) \<Rightarrow> tensor \<Rightarrow> tensor" where
  "normalize mean var g be x =
     x\<lparr>val := (\<lambda>n c y xx. (val x n c y xx - mean c) / sqrt (var c + bn_eps) * g c + be c)\<rparr>"

definition relu :: "tensor \<Rightarrow> tensor" where
  "relu x = x\<lparr>val := (\<lambda>n c y xx. max 0 (val x n c y xx))\<rparr>"

definition dropout_train :: "real \<Rightarrow> (nat \<Rightarrow> nat \<Rightarrow> nat \<Rightarrow> nat \<Rightarrow> bool) \<Rightarrow> tensor \<Rightarrow> tensor" where
  "dropout_train p keep x =
     x\<lparr>val := (\<lambda>n c y xx. if keep n c y xx then val x n c y xx / (1 - p) else 0)\<rparr>"

definition window_max :: "(nat \<Rightarrow> nat \<Rightarrow> real) \<Rightarrow> nat \<Rightarrow> real" where
  "window_max f k = fold max (map (\<lambda>(i, j). f i j) (List.product [0..<k] [0..<k])) (f 0 0)"

definition max_pool2d :: "nat \<Rightarrow> nat \<Rightarrow> tensor \<Rightarrow> error + tensor" where
  "max_pool2d k s x =
     (if k = 0 \<or> s = 0 then Inl (RuntimeError ''max_pool2d: kernel size and stride must be positive'')
      else if hgt x < k \<or> wid x < k then Inl (RuntimeError ''max_pool2d: output size is too small'')
      else Inr \<lparr>bsz = bsz x, chans = chans x,
                hgt = (hgt x - k) div s + 1, wid = (wid x - k) div s + 1,
                val = (\<lambda>n c y xx. window_max (\<lambda>i j. val x n c (y * s + i) (xx * s + j)) k)\<rparr>)"

text \<open>
  The forward pass of one module, \<open>training\<close> being the module's mode. It returns the
  output, the module after the call (batch normalisation in training mode updates its
  running statistics) and the generator after the call (dropout in training mode draws a
  mask).
\<close>

fun layer_forward :: "bool \<Rightarrow> layer \<Rightarrow> rng \<Rightarrow> tensor \<Rightarrow> error + (tensor \<times> layer \<times> rng)" where
  "layer_forward training (Conv2d cin cout k p w b) g x =
     (case conv2d cin cout k p w b x of
        Inl e \<Rightarrow> Inl e
      | Inr y \<Rightarrow> Inr (y, Conv2d cin cout k p w b, g))"
| "layer_forward training (BatchNorm2d c ga be rm rv nbt) g x =
     (if chans x \<noteq> c then Inl (RuntimeError ''batch_norm: wrong number of channels'')
      else if training then
        (if bsz x * hgt x * wid x = 1
         then Inl (ValueError ''Expected more than 1 value per channel when training'')
         else
           (let cnt = real (bsz x * hgt x * wid x);
                m = batch_mean x;
                v = batch_var x;
                rm' = (\<lambda>ch. (1 - bn_momentum) * rm ch + bn_momentum * m ch);
                rv' = (\<lambda>ch. (1 - bn_momentum) * rv ch + bn_momentum * (v ch * cnt / (cnt - 1)))
            in Inr (normalize m v ga be x, BatchNorm2d c ga be rm' rv' (nbt + 1), g)))
      else Inr (normalize rm rv ga be x, BatchNorm2d c ga be rm rv nbt, g))"
| "layer_forward training ReLU g x = Inr (relu x, ReLU, g)"
| "layer_forward training (Dropout p) g x =
     (if training then Inr (dropout_train p (g 0) x, Dropout p, (\<lambda>i. g (Suc i)))
      else Inr (x, Dropout p, g))"
| "layer_forward training (MaxPool2d k s) g x =
     (case max_pool2d k s x of
        Inl e \<Rightarrow> Inl e
      | Inr y \<Rightarrow> Inr (y, MaxPool2d k s, g))"

text \<open>\<^verbatim>\<open>nn.Sequential\<close>: the modules run in order, each on the output of the one before.\<close>

fun Sequential_forward ::
  "bool \<Rightarrow> layer list \<Rightarrow> rng \<Rightarrow> tensor \<Rightarrow> error + (tensor \<times> layer list \<times> rng)" where
  "Sequential_forward training [] g x = Inr (x, [], g)"
| "Sequential_forward training (l # ls) g x =
     (case layer_forward training l g x of
        Inl e \<Rightarrow> Inl e
      | Inr (y, l', g') \<Rightarrow>
          (case Sequential_forward training ls g' y of
             Inl e \<Rightarrow> Inl e
           | Inr (z, ls', g'') \<Rightarrow> Inr (z, l' # ls', g'')))"

text \<open>
  \<^verbatim>\<open>F.interpolate(input, size, mode='bilinear', align_corners=True)\<close>: the corners of the
  source and target grids coincide, so target row \<open>y\<close> reads the source at
  \<open>y * (H_in - 1) / (H_out - 1)\<close> (at \<open>0\<close> when \<open>H_out = 1\<close>).
\<close>

definition src_coord :: "nat \<Rightarrow> nat \<Rightarrow> nat \<Rightarrow> real" where
  "src_coord n_in n_out i =
     (if n_out > 1 then real i * (real (n_in - 1) / real (n_out - 1)) else 0)"

definition interpolate :: "tensor \<Rightarrow> nat \<times> nat \<Rightarrow> error + tensor" where
  "interpolate x sz =
     (case sz of (H, W) \<Rightarrow>
        if hgt x = 0 \<or> wid x = 0 \<or> H = 0 \<or> W = 0
        then Inl (RuntimeError ''Input and output sizes should be greater than 0'')
        else Inr \<lparr>bsz = bsz x, chans = chans x, hgt = H, wid = W,
                  val = (\<lambda>n c y xx.
                    let sy = src_coord (hgt x) H y;
                        sx = src_coord (wid x) W xx;
                        y0 = nat \<lfloor>sy\<rfloor>;
                        x0 = nat \<lfloor>sx\<rfloor>;
                        y1 = (if y0 < hgt x - 1 then y0 + 1 else y0);
                        x1 = (if x0 < wid x - 1 then x0 + 1 else x0);
                        ly = sy - real y0;
                        lx = sx - real x0
                    in (1 - ly) * ((1 - lx) * val x n c y0 x0 + lx * val x n c y0 x1)
                       + ly * ((1 - lx) * val x n c y1 x0 + lx * val x n c y1 x1))\<rparr>)"

text \<open>
  \<^verbatim>\<open>a + b\<close> on tensors: the entrywise sum when the sizes agree, and otherwise torch's
  broadcasting of the dimensions of size 1.
\<close>

type_synonym shape = "nat \<times> nat \<times> nat \<times> nat"

definition dims :: "tensor \<Rightarrow> shape" where
  "dims x = (bsz x, chans x, hgt x, wid x)"

definition bdim :: "nat \<Rightarrow> nat \<Rightarrow> nat option" where
  "bdim a b = (if a = b then Some a else if a = 1 then Some b else if b = 1 then Some a else None)"

definition bidx :: "nat \<Rightarrow> nat \<Rightarrow> nat" where
  "bidx d i = (if d = 1 then 0 else i)"

definition tensor_add :: "tensor \<Rightarrow> tensor \<Rightarrow> error + tensor" where
  "tensor_add a b =
     (if dims a = dims b
      then Inr (a\<lparr>val := (\<lambda>i j y x. val a i j y x + val b i j y x)\<rparr>)
      else
        (case (bdim (bsz a) (bsz b), bdim (chans a) (chans b), bdim (hgt a) (hgt b), bdim (wid a) (wid b)) of
           (Some n, Some c, Some h, Some w) \<Rightarrow>
             Inr \<lparr>bsz = n, chans = c, hgt = h, wid = w,
                  val = (\<lambda>i j y x.
                    val a (bidx (bsz a) i) (bidx (chans a) j) (bidx (hgt a) y) (bidx (wid a) x) +
                    val b (bidx (bsz b) i) (bidx (chans b) j) (bidx (hgt b) y) (bidx (wid b) x))\<rparr>
         | _ \<Rightarrow> Inl (RuntimeError ''The size of tensor a must match the size of tensor b'')))"

text \<open>\<^verbatim>\<open>x.size()[2:]\<close>\<close>

definition size2 :: "tensor \<Rightarrow> nat \<times> nat" where
  "size2 x = (hgt x, wid x)"

section \<open>Sizes\<close>

text \<open>
  The size of the output of a module, or the exception it raises, depends only on the
  architecture of the module, its mode and the size of the input: \<open>layer_shape\<close> and
  \<open>Sequential_shape\<close> compute it, as is proved below of \<open>layer_forward\<close> and
  \<open>Sequential_forward\<close>.
\<close>

fun layer_shape :: "bool \<Rightarrow> arch \<Rightarrow> shape \<Rightarrow> error + shape" where
  "layer_shape t (AConv2d cin cout k p has_bias) (n, c, h, w) =
     (if cin = 0 \<or> cout = 0 then Inl (RuntimeError ''conv2d: weight without channels'')
      else if c \<noteq> cin then Inl (RuntimeError ''conv2d: wrong number of input channels'')
      else if h + 2 * p < k \<or> w + 2 * p < k
      then Inl (RuntimeError ''conv2d: kernel size greater than padded input size'')
      else Inr (n, cout, h + 2 * p + 1 - k, w + 2 * p + 1 - k))"
| "layer_shape t (ABatchNorm2d c') (n, c, h, w) =
     (if c \<noteq> c' then Inl (RuntimeError ''batch_norm: wrong number of channels'')
      else if t \<and> n * h * w = 1
      then Inl (ValueError ''Expected more than 1 value per channel when training'')
      else Inr (n, c, h, w))"
| "layer_shape t AReLU s = Inr s"
| "layer_shape t (ADropout p) s = Inr s"
| "layer_shape t (AMaxPool2d k s) (n, c, h, w) =
     (if k = 0 \<or> s = 0 then Inl (RuntimeError ''max_pool2d: kernel size and stride must be positive'')
      else if h < k \<or> w < k then Inl (RuntimeError ''max_pool2d: output size is too small'')
      else Inr (n, c, (h - k) div s + 1, (w - k) div s + 1))"

fun Sequential_shape :: "bool \<Rightarrow> arch list \<Rightarrow> shape \<Rightarrow> error + shape" where
  "Sequential_shape t [] s = Inr s"
| "Sequential_shape t (a # as) s =
     (case layer_shape t a s of
        Inl e \<Rightarrow> Inl e
      | Inr s' \<Rightarrow> Sequential_shape t as s')"

text \<open>Sequencing of computations that may raise.\<close>

definition bindE :: "error + 'a \<Rightarrow> ('a \<Rightarrow> error + 'b) \<Rightarrow> error + 'b" where
  "bindE m f = (case m of Inl e \<Rightarrow> Inl e | Inr v \<Rightarrow> f v)"

section \<open>The prediction head\<close>

text \<open>
  The values that torch's initialiser draws for the weight and the bias of a new
  convolution are an argument of the constructor. A new batch normalisation starts from
  weight 1, bias 0, running mean 0, running variance 1, and no batch tracked.
\<close>

type_synonym conv_init = "(nat \<Rightarrow> nat \<Rightarrow> nat \<Rightarrow> nat \<Rightarrow> real) \<times> (nat \<Rightarrow> real)"

definition Conv2d_new :: "nat \<Rightarrow> nat \<Rightarrow> nat \<Rightarrow> nat \<Rightarrow> bool \<Rightarrow> conv_init \<Rightarrow> layer" where
  "Conv2d_new cin cout k p has_bias i =
     Conv2d cin cout k p (fst i) (if has_bias then Some (snd i) else None)"

definition BatchNorm2d_new :: "nat \<Rightarrow> layer" where
  "BatchNorm2d_new c = BatchNorm2d c (\<lambda>ch. 1) (\<lambda>ch. 0) (\<lambda>ch. 0) (\<lambda>ch. 1) 0"

text \<open>\<^verbatim>\<open>_FCNHead.__init__\<close>: the head is its \<^verbatim>\<open>block\<close>, a sequence of five modules.\<close>

definition FCNHead :: "nat \<Rightarrow> nat \<Rightarrow> conv_init \<times> conv_init \<Rightarrow> layer list" where
  "FCNHead in_channels channels i =
     (let inter_channels = in_channels div 4 in
      [Conv2d_new in_channels inter_channels 3 1 False (fst i),
       BatchNorm2d_new inter_channels,
       ReLU,
       Dropout (1 / 10),
       Conv2d_new inter_channels channels 1 0 True (snd i)])"

text \<open>\<^verbatim>\<open>_FCNHead.forward\<close>\<close>

definition FCNHead_forward ::
  "bool \<Rightarrow> layer list \<Rightarrow> rng \<Rightarrow> tensor \<Rightarrow> error + (tensor \<times> layer list \<times> rng)" where
  "FCNHead_forward training block g x = Sequential_forward training block g x"

section \<open>The external collaborators\<close>

text \<open>
  \<^verbatim>\<open>data_loader.datasets\<close> (here the class count \<^verbatim>\<open>NUM_CLASS\<close> of each registered dataset),
  \<^verbatim>\<open>models.vgg.vgg16\<close> (here the \<^verbatim>\<open>features\<close> it builds), \<^verbatim>\<open>models.model_store.get_model_file\<close>,
  \<^verbatim>\<open>torch.load\<close> and \<^verbatim>\<open>load_state_dict\<close> are not part of \<^verbatim>\<open>models/fcn.py\<close>: they are parameters
  of the model. Each call of one of them that has an effect outside the program is recorded
  in a trace, in the order of the calls.
\<close>

datatype event =
    CallVgg16 bool
  | CallGetModelFile string string
  | CallTorchLoad string
  | CallLoadStateDict

text \<open>
  The three classes of the source have the attributes \<^verbatim>\<open>aux\<close>, \<^verbatim>\<open>features\<close>, \<^verbatim>\<open>head\<close> and
  \<^verbatim>\<open>auxlayer\<close>; \<^verbatim>\<open>FCN16s\<close> adds \<^verbatim>\<open>pool4\<close>, \<^verbatim>\<open>pool5\<close> and \<^verbatim>\<open>score_pool4\<close>, \<^verbatim>\<open>FCN8s\<close> adds
  \<^verbatim>\<open>pool3\<close> and \<^verbatim>\<open>score_pool3\<close> to these. \<open>training\<close> is the mode of the module and of its
  submodules (\<^verbatim>\<open>nn.Module.training\<close>, true after construction). \<open>auxlayer\<close> is \<open>None\<close> when
  the attribute was never set.
\<close>

record FCN32s =
  training :: bool
  aux :: bool
  features :: "layer list"
  head :: "layer list"
  auxlayer :: "layer list option"

record FCN16s = FCN32s +
  pool4 :: "layer list"
  pool5 :: "layer list"
  score_pool4 :: layer

record FCN8s = FCN16s +
  pool3 :: "layer list"
  score_pool3 :: layer

record 'sd env =
  datasets :: "string \<Rightarrow> nat option"
  vgg16 :: "bool \<Rightarrow> error + layer list"
  get_model_file :: "string \<Rightarrow> string \<Rightarrow> error + string"
  torch_load :: "string \<Rightarrow> error + 'sd"
  load_state_dict32 :: "FCN32s \<Rightarrow> 'sd \<Rightarrow> error + FCN32s"
  load_state_dict16 :: "FCN16s \<Rightarrow> 'sd \<Rightarrow> error + FCN16s"
  load_state_dict8 :: "FCN8s \<Rightarrow> 'sd \<Rightarrow> error + FCN8s"

section \<open>The constructors\<close>

text \<open>
  \<^verbatim>\<open>FCN32s.__init__\<close>. The arguments \<^verbatim>\<open>base_size\<close>, \<^verbatim>\<open>crop_size\<close> and \<^verbatim>\<open>**kwargs\<close> are not
  used by the source and are left out. \<open>hi\<close> and \<open>ai\<close> are the initial values of the
  convolutions of the head and of the auxiliary head.
\<close>

definition FCN32s_init ::
  "'sd env \<Rightarrow> nat \<Rightarrow> string \<Rightarrow> bool \<Rightarrow> bool \<Rightarrow> conv_init \<times> conv_init \<Rightarrow> conv_init \<times> conv_init
     \<Rightarrow> event list \<Rightarrow> (error + FCN32s) \<times> event list" where
  "FCN32s_init env nclass backbone aux_arg pretrained_base hi ai tr =
     (if backbone = ''vgg16'' then
        (case vgg16 env pretrained_base of
           Inl e \<Rightarrow> (Inl e, tr @ [CallVgg16 pretrained_base])
         | Inr fs \<Rightarrow>
             (Inr \<lparr>training = True, aux = aux_arg, features = fs,
                   head = FCNHead 512 nclass hi,
                   auxlayer = (if aux_arg then Some (FCNHead 512 nclass ai) else None)\<rparr>,
              tr @ [CallVgg16 pretrained_base]))
      else (Inl (RuntimeError (''unknown backbone: '' @ backbone)), tr))"

text \<open>
  \<^verbatim>\<open>FCN16s.__init__\<close>. \<^verbatim>\<open>self.features[:24]\<close> is \<open>take 24\<close>, \<^verbatim>\<open>self.features[24:]\<close> is
  \<open>drop 24\<close>. \<open>si4\<close> is the initial value of \<^verbatim>\<open>score_pool4\<close>.
\<close>

definition FCN16s_init ::
  "'sd env \<Rightarrow> nat \<Rightarrow> string \<Rightarrow> bool \<Rightarrow> bool \<Rightarrow> conv_init \<times> conv_init \<Rightarrow> conv_init
     \<Rightarrow> conv_init \<times> conv_init \<Rightarrow> event list \<Rightarrow> (error + FCN16s) \<times> event list" where
  "FCN16s_init env nclass backbone aux_arg pretrained_base hi si4 ai tr =
     (if backbone = ''vgg16'' then
        (case vgg16 env pretrained_base of
           Inl e \<Rightarrow> (Inl e, tr @ [CallVgg16 pretrained_base])
         | Inr fs \<Rightarrow>
             (Inr \<lparr>training = True, aux = aux_arg, features = fs,
                   head = FCNHead 512 nclass hi,
                   auxlayer = (if aux_arg then Some (FCNHead 512 nclass ai) else None),
                   pool4 = take 24 fs,
                   pool5 = drop 24 fs,
                   score_pool4 = Conv2d_new 512 nclass 1 0 True si4\<rparr>,
              tr @ [CallVgg16 pretrained_base]))
      else (Inl (RuntimeError (''unknown backbone: '' @ backbone)), tr))"

text \<open>
  \<^verbatim>\<open>FCN8s.__init__\<close>. \<^verbatim>\<open>self.features[17:24]\<close> is \<open>drop 17 (take 24 fs)\<close>. \<open>si3\<close> is the
  initial value of \<^verbatim>\<open>score_pool3\<close>.
\<close>

definition FCN8s_init ::
  "'sd env \<Rightarrow> nat \<Rightarrow> string \<Rightarrow> bool \<Rightarrow> bool \<Rightarrow> conv_init \<times> conv_init \<Rightarrow> conv_init \<Rightarrow> conv_init
     \<Rightarrow> conv_init \<times> conv_init \<Rightarrow> event list \<Rightarrow> (error + FCN8s) \<times> event list" where
  "FCN8s_init env nclass backbone aux_arg pretrained_base hi si3 si4 ai tr =
     (if backbone = ''vgg16'' then
        (case vgg16 env pretrained_base of
           Inl e \<Rightarrow> (Inl e, tr @ [CallVgg16 pretrained_base])
         | Inr fs \<Rightarrow>
             (Inr \<lparr>training = True, aux = aux_arg, features = fs,
                   head = FCNHead 512 nclass hi,
                   auxlayer = (if aux_arg then Some (FCNHead 512 nclass ai) else None),
                   pool4 = drop 17 (take 24 fs),
                   pool5 = drop 24 fs,
                   score_pool4 = Conv2d_new 512 nclass 1 0 True si4,
                   pool3 = take 17 fs,
                   score_pool3 = Conv2d_new 256 nclass 1 0 True si3\<rparr>,
              tr @ [CallVgg16 pretrained_base]))
      else (Inl (RuntimeError (''unknown backbone: '' @ backbone)), tr))"

section \<open>The forward passes\<close>

text \<open>
  Each forward pass returns the tuple of outputs, the model after the call and the
  generator after the call, or the exception raised. The modules of \<^verbatim>\<open>pool3\<close>, \<^verbatim>\<open>pool4\<close>
  and \<^verbatim>\<open>pool5\<close> are the very modules of \<^verbatim>\<open>features\<close>, so a change of their state is a change
  of \<^verbatim>\<open>features\<close> too.
\<close>

text \<open>\<^verbatim>\<open>FCN32s.forward\<close>\<close>

definition FCN32s_forward :: "FCN32s \<Rightarrow> rng \<Rightarrow> tensor \<Rightarrow> error + (tensor list \<times> FCN32s \<times> rng)" where
  "FCN32s_forward self g x =
     bindE (Sequential_forward (training self) (features self) g x) (\<lambda>(pool5_v, features', g1).
     bindE (FCNHead_forward (training self) (head self) g1 pool5_v) (\<lambda>(out0, head', g2).
     bindE (interpolate out0 (size2 x)) (\<lambda>out.
     if aux self then
       (case auxlayer self of
          None \<Rightarrow> Inl (AttributeError ''auxlayer'')
        | Some al \<Rightarrow>
            bindE (FCNHead_forward (training self) al g2 pool5_v) (\<lambda>(auxout0, al', g3).
            bindE (interpolate auxout0 (size2 x)) (\<lambda>auxout.
            Inr ([out, auxout],
                 self\<lparr>features := features', head := head', auxlayer := Some al'\<rparr>, g3))))
     else Inr ([out], self\<lparr>features := features', head := head'\<rparr>, g2))))"

text \<open>\<^verbatim>\<open>FCN16s.forward\<close>\<close>

definition FCN16s_forward :: "FCN16s \<Rightarrow> rng \<Rightarrow> tensor \<Rightarrow> error + (tensor list \<times> FCN16s \<times> rng)" where
  "FCN16s_forward self g x =
     bindE (Sequential_forward (training self) (pool4 self) g x) (\<lambda>(pool4_v, pool4', g1).
     bindE (Sequential_forward (training self) (pool5 self) g1 pool4_v) (\<lambda>(pool5_v, pool5', g2).
     bindE (FCNHead_forward (training self) (head self) g2 pool5_v) (\<lambda>(score_fr, head', g3).
     bindE (layer_forward (training self) (score_pool4 self) g3 pool4_v) (\<lambda>(score_pool4_v, score_pool4', g4).
     bindE (interpolate score_fr (size2 score_pool4_v)) (\<lambda>upscore2.
     bindE (tensor_add upscore2 score_pool4_v) (\<lambda>fuse_pool4.
     bindE (interpolate fuse_pool4 (size2 x)) (\<lambda>out.
     if aux self then
       (case auxlayer self of
          None \<Rightarrow> Inl (AttributeError ''auxlayer'')
        | Some al \<Rightarrow>
            bindE (FCNHead_forward (training self) al g4 pool5_v) (\<lambda>(auxout0, al', g5).
            bindE (interpolate auxout0 (size2 x)) (\<lambda>auxout.
            Inr ([out, auxout],
                 self\<lparr>features := pool4' @ pool5', head := head', auxlayer := Some al',
                      pool4 := pool4', pool5 := pool5', score_pool4 := score_pool4'\<rparr>, g5))))
     else Inr ([out],
               self\<lparr>features := pool4' @ pool5', head := head',
                    pool4 := pool4', pool5 := pool5', score_pool4 := score_pool4'\<rparr>, g4))))))))"

text \<open>\<^verbatim>\<open>FCN8s.forward\<close>\<close>

definition FCN8s_forward :: "FCN8s \<Rightarrow> rng \<Rightarrow> tensor \<Rightarrow> error + (tensor list \<times> FCN8s \<times> rng)" where
  "FCN8s_forward self g x =
     bindE (Sequential_forward (training self) (pool3 self) g x) (\<lambda>(pool3_v, pool3', g1).
     bindE (Sequential_forward (training self) (pool4 self) g1 pool3_v) (\<lambda>(pool4_v, pool4', g2).
     bindE (Sequential_forward (training self) (pool5 self) g2 pool4_v) (\<lambda>(pool5_v, pool5', g3).
     bindE (FCNHead_forward (training self) (head self) g3 pool5_v) (\<lambda>(score_fr, head', g4).
     bindE (layer_forward (training self) (score_pool4 self) g4 pool4_v) (\<lambda>(score_pool4_v, score_pool4', g5).
     bindE (layer_forward (training self) (score_pool3 self) g5 pool3_v) (\<lambda>(score_pool3_v, score_pool3', g6).
     bindE (interpolate score_fr (size2 score_pool4_v)) (\<lambda>upscore2.
     bindE (tensor_add upscore2 score_pool4_v) (\<lambda>fuse_pool4.
     bindE (interpolate fuse_pool4 (size2 score_pool3_v)) (\<lambda>upscore_pool4.
     bindE (tensor_add upscore_pool4 score_pool3_v) (\<lambda>fuse_pool3.
     bindE (interpolate fuse_pool3 (size2 x)) (\<lambda>out.
     if aux self then
       (case auxlayer self of
          None \<Rightarrow> Inl (AttributeError ''auxlayer'')
        | Some al \<Rightarrow>
            bindE (FCNHead_forward (training self) al g6 pool5_v) (\<lambda>(auxout0, al', g7).
            bindE (interpolate auxout0 (size2 x)) (\<lambda>auxout.
            Inr ([out, auxout],
                 self\<lparr>features := pool3' @ pool4' @ pool5', head := head', auxlayer := Some al',
                      pool4 := pool4', pool5 := pool5', score_pool4 := score_pool4',
                      pool3 := pool3', score_pool3 := score_pool3'\<rparr>, g7))))
     else Inr ([out],
               self\<lparr>features := pool3' @ pool4' @ pool5', head := head',
                    pool4 := pool4', pool5 := pool5', score_pool4 := score_pool4',
                    pool3 := pool3', score_pool3 := score_pool3'\<rparr>, g6))))))))))))"

section \<open>The factory functions\<close>

definition acronyms :: "string \<Rightarrow> string option" where
  "acronyms = map_of
     [(''pascal_voc'', ''pascal_voc''),
      (''pascal_aug'', ''pascal_aug''),
      (''ade20k'', ''ade''),
      (''coco'', ''coco''),
      (''citys'', ''citys'')]"

text \<open>
  \<^verbatim>\<open>get_fcn32s\<close>. Of \<^verbatim>\<open>**kwargs\<close> only \<^verbatim>\<open>aux\<close> reaches an attribute of the model; it is the
  argument \<open>aux_arg\<close>. The class count is looked up while the arguments of the constructor
  are evaluated, before the constructor is called; a dataset that is not registered raises
  \<^verbatim>\<open>KeyError\<close> there.
\<close>

definition get_fcn32s ::
  "'sd env \<Rightarrow> string \<Rightarrow> string \<Rightarrow> bool \<Rightarrow> string \<Rightarrow> bool \<Rightarrow> bool
     \<Rightarrow> conv_init \<times> conv_init \<Rightarrow> conv_init \<times> conv_init
     \<Rightarrow> event list \<Rightarrow> (error + FCN32s) \<times> event list" where
  "get_fcn32s env dataset backbone pretrained root_dir pretrained_base aux_arg hi ai tr =
     (case datasets env dataset of
        None \<Rightarrow> (Inl (KeyError dataset), tr)
      | Some nclass \<Rightarrow>
          (case FCN32s_init env nclass backbone aux_arg pretrained_base hi ai tr of
             (Inl e, tr1) \<Rightarrow> (Inl e, tr1)
           | (Inr model, tr1) \<Rightarrow>
               if pretrained then
                 (case acronyms dataset of
                    None \<Rightarrow> (Inl (KeyError dataset), tr1)
                  | Some acr \<Rightarrow>
                      (let key = ''fcn32s_'' @ backbone @ ''_'' @ acr;
                           tr2 = tr1 @ [CallGetModelFile key root_dir]
                       in case get_model_file env key root_dir of
                            Inl e \<Rightarrow> (Inl e, tr2)
                          | Inr path \<Rightarrow>
                              (case torch_load env path of
                                 Inl e \<Rightarrow> (Inl e, tr2 @ [CallTorchLoad path])
                               | Inr sd \<Rightarrow>
                                   (load_state_dict32 env model sd,
                                    tr2 @ [CallTorchLoad path, CallLoadStateDict]))))
               else (Inr model, tr1)))"

text \<open>\<^verbatim>\<open>get_fcn16s\<close>\<close>

definition get_fcn16s ::
  "'sd env \<Rightarrow> string \<Rightarrow> string \<Rightarrow> bool \<Rightarrow> string \<Rightarrow> bool \<Rightarrow> bool
     \<Rightarrow> conv_init \<times> conv_init \<Rightarrow> conv_init \<Rightarrow> conv_init \<times> conv_init
     \<Rightarrow> event list \<Rightarrow> (error + FCN16s) \<times> event list" where
  "get_fcn16s env dataset backbone pretrained root_dir pretrained_base aux_arg hi si4 ai tr =
     (case datasets env dataset of
        None \<Rightarrow> (Inl (KeyError dataset), tr)
      | Some nclass \<Rightarrow>
          (case FCN16s_init env nclass backbone aux_arg pretrained_base hi si4 ai tr of
             (Inl e, tr1) \<Rightarrow> (Inl e, tr1)
           | (Inr model, tr1) \<Rightarrow>
               if pretrained then
                 (case acronyms dataset of
                    None \<Rightarrow> (Inl (KeyError dataset), tr1)
                  | Some acr \<Rightarrow>
                      (let key = ''fcn32s_'' @ backbone @ ''_'' @ acr;
                           tr2 = tr1 @ [CallGetModelFile key root_dir]
                       in case get_model_file env key root_dir of
                            Inl e \<Rightarrow> (Inl e, tr2)
                          | Inr path \<Rightarrow>
                              (case torch_load env path of
                                 Inl e \<Rightarrow> (Inl e, tr2 @ [CallTorchLoad path])
                               | Inr sd \<Rightarrow>
                                   (load_state_dict16 env model sd,
                                    tr2 @ [CallTorchLoad path, CallLoadStateDict]))))
               else (Inr model, tr1)))"

text \<open>\<^verbatim>\<open>get_fcn8s\<close>\<close>

definition get_fcn8s ::
  "'sd env \<Rightarrow> string \<Rightarrow> string \<Rightarrow> bool \<Rightarrow> string \<Rightarrow> bool \<Rightarrow> bool
     \<Rightarrow> conv_init \<times> conv_init \<Rightarrow> conv_init \<Rightarrow> conv_init \<Rightarrow> conv_init \<times> conv_init
     \<Rightarrow> event list \<Rightarrow> (error + FCN8s) \<times> event list" where
  "get_fcn8s env dataset backbone pretrained root_dir pretrained_base aux_arg hi si3 si4 ai tr =
     (case datasets env dataset of
        None \<Rightarrow> (Inl (KeyError dataset), tr)
      | Some nclass \<Rightarrow>
          (case FCN8s_init env nclass backbone aux_arg pretrained_base hi si3 si4 ai tr of
             (Inl e, tr1) \<Rightarrow> (Inl e, tr1)
           | (Inr model, tr1) \<Rightarrow>
               if pretrained then
                 (case acronyms dataset of
                    None \<Rightarrow> (Inl (KeyError dataset), tr1)
                  | Some acr \<Rightarrow>
                      (let key = ''fcn32s_'' @ backbone @ ''_'' @ acr;
                           tr2 = tr1 @ [CallGetModelFile key root_dir]
                       in case get_model_file env key root_dir of
                            Inl e \<Rightarrow> (Inl e, tr2)
                          | Inr path \<Rightarrow>
                              (case torch_load env path of
                                 Inl e \<Rightarrow> (Inl e, tr2 @ [CallTorchLoad path])
                               | Inr sd \<Rightarrow>
                                   (load_state_dict8 env model sd,
                                    tr2 @ [CallTorchLoad path, CallLoadStateDict]))))
               else (Inr model, tr1)))"

section \<open>Architectures of the head and of the models\<close>

text \<open>
  The head as the specification describes it: a 3x3 convolution without bias to a quarter
  of the input channels, batch normalisation, a rectifier, dropout with rate 0.1, and a
  1x1 convolution with bias to the class scores.
\<close>

definition FCNHead_arch :: "nat \<Rightarrow> nat \<Rightarrow> arch list" where
  "FCNHead_arch in_channels channels =
     [AConv2d in_channels (in_channels div 4) 3 1 False,
      ABatchNorm2d (in_channels div 4),
      AReLU,
      ADropout (1 / 10),
      AConv2d (in_channels div 4) channels 1 0 True]"

text \<open>
  The invariants of the three models: the heads and the projectors have the architecture
  the constructor gave them, whatever their parameters have become, and the slices of the
  backbone make up \<^verbatim>\<open>features\<close>.
\<close>

definition FCN32s_wf :: "nat \<Rightarrow> 'a FCN32s_scheme \<Rightarrow> bool" where
  "FCN32s_wf nclass m =
     (map arch_of (head m) = FCNHead_arch 512 nclass \<and>
      (aux m \<longrightarrow> map_option (map arch_of) (auxlayer m) = Some (FCNHead_arch 512 nclass)))"

definition FCN16s_wf :: "nat \<Rightarrow> FCN16s \<Rightarrow> bool" where
  "FCN16s_wf nclass m =
     (FCN32s_wf nclass m \<and>
      arch_of (score_pool4 m) = AConv2d 512 nclass 1 0 True \<and>
      features m = pool4 m @ pool5 m)"

definition FCN8s_wf :: "nat \<Rightarrow> FCN8s \<Rightarrow> bool" where
  "FCN8s_wf nclass m =
     (FCN32s_wf nclass m \<and>
      arch_of (score_pool4 m) = AConv2d 512 nclass 1 0 True \<and>
      arch_of (score_pool3 m) = AConv2d 256 nclass 1 0 True \<and>
      features m = pool3 m @ pool4 m @ pool5 m)"

text \<open>The calls of \<^verbatim>\<open>get_model_file\<close> in a trace: the key and the root of each, in order.\<close>

fun model_file_calls :: "event list \<Rightarrow> (string \<times> string) list" where
  "model_file_calls [] = []"
| "model_file_calls (CallGetModelFile k r # es) = (k, r) # model_file_calls es"
| "model_file_calls (e # es) = model_file_calls es"

section \<open>An example environment\<close>

text \<open>
  Modelled from the spec: the backbone, \<^verbatim>\<open>models/vgg.py\<close>, is not part of the source. The
  example has the cut points the spec asks for (256 channels after 17 modules, 512
  channels after 24 modules and at the end) in the layout of VGG-16: 3x3 convolutions with
  padding 1, each followed by a rectifier, and five 2x2 poolings of stride 2.
\<close>

fun make_layers :: "nat \<Rightarrow> nat option list \<Rightarrow> conv_init \<Rightarrow> layer list" where
  "make_layers cin [] i = []"
| "make_layers cin (None # cfg) i = MaxPool2d 2 2 # make_layers cin cfg i"
| "make_layers cin (Some v # cfg) i = Conv2d_new cin v 3 1 True i # ReLU # make_layers v cfg i"

definition zero_init :: conv_init where
  "zero_init = ((\<lambda>oc c i j. 0), (\<lambda>oc. 0))"

definition example_vgg16 :: "layer list" where
  "example_vgg16 = make_layers 3
     [Some 64, Some 64, None, Some 128, Some 128, None,
      Some 256, Some 256, Some 256, None,
      Some 512, Some 512, Some 512, None,
      Some 512, Some 512, Some 512, None] zero_init"

text \<open>
  Modelled from the spec: the dataset registry and the model store are not part of the
  source. The example registers the five datasets that have an acronym, and a store that
  resolves every key and loads nothing new.
\<close>

definition example_env :: "unit env" where
  "example_env =
     \<lparr>datasets = map_of
        [(''pascal_voc'', 21), (''pascal_aug'', 21), (''ade20k'', 150), (''coco'', 21), (''citys'', 19)],
      vgg16 = (\<lambda>pretrained. Inr example_vgg16),
      get_model_file = (\<lambda>key root_dir. Inr (root_dir @ ''/'' @ key @ ''.pth'')),
      torch_load = (\<lambda>path. Inr ()),
      load_state_dict32 = (\<lambda>model sd. Inr model),
      load_state_dict16 = (\<lambda>model sd. Inr model),
      load_state_dict8 = (\<lambda>model sd. Inr model)\<rparr>"

text \<open>
  The three models that the constructors build in the example environment for 21 classes
  with \<^verbatim>\<open>aux=True\<close>, an input image of size 64x64 with its batch of one, and a generator.
\<close>

definition example_fcn32s :: FCN32s where
  "example_fcn32s =
     \<lparr>training = True, aux = True, features = example_vgg16,
      head = FCNHead 512 21 (zero_init, zero_init),
      auxlayer = Some (FCNHead 512 21 (zero_init, zero_init))\<rparr>"

definition example_fcn16s :: FCN16s where
  "example_fcn16s =
     \<lparr>training = True, aux = True, features = example_vgg16,
      head = FCNHead 512 21 (zero_init, zero_init),
      auxlayer = Some (FCNHead 512 21 (zero_init, zero_init)),
      pool4 = take 24 example_vgg16,
      pool5 = drop 24 example_vgg16,
      score_pool4 = Conv2d_new 512 21 1 0 True zero_init\<rparr>"

definition example_fcn8s :: FCN8s where
  "example_fcn8s =
     \<lparr>training = True, aux = True, features = example_vgg16,
      head = FCNHead 512 21 (zero_init, zero_init),
      auxlayer = Some (FCNHead 512 21 (zero_init, zero_init)),
      pool4 = drop 17 (take 24 example_vgg16),
      pool5 = drop 24 example_vgg16,
      score_pool4 = Conv2d_new 512 21 1 0 True zero_init,
      pool3 = take 17 example_vgg16,
      score_pool3 = Conv2d_new 256 21 1 0 True zero_init\<rparr>"

definition example_input :: tensor where
  "example_input = \<lparr>bsz = 1, chans = 3, hgt = 64, wid = 64, val = (\<lambda>n c y x. real (c + y + x))\<rparr>"

definition example_rng :: rng where
  "example_rng = (\<lambda>i n c y x. even (i + n + c + y + x))"

section \<open>Properties of the factory functions and constructors\<close>

lemma model_file_calls_append:
  "model_file_calls (a @ b) = model_file_calls a @ model_file_calls b"
  by (induction a rule: model_file_calls.induct) simp_all

lemma example_inits:
  "fst (FCN32s_init example_env 21 ''vgg16'' True True (zero_init, zero_init) (zero_init, zero_init) [])
     = Inr example_fcn32s"
  "fst (FCN16s_init example_env 21 ''vgg16'' True True (zero_init, zero_init) zero_init (zero_init, zero_init) [])
     = Inr example_fcn16s"
  "fst (FCN8s_init example_env 21 ''vgg16'' True True (zero_init, zero_init) zero_init zero_init (zero_init, zero_init) [])
     = Inr example_fcn8s"
  by (simp_all add: FCN32s_init_def FCN16s_init_def FCN8s_init_def example_env_def
      example_fcn32s_def example_fcn16s_def example_fcn8s_def)

text \<open>
  Claim C4. With \<^verbatim>\<open>pretrained=True\<close>, for a registered dataset and a backbone that the
  constructor accepts, each of the three factory functions returns what the model store,
  asked for the key \<^verbatim>\<open>fcn32s_<backbone>_<acronym>\<close>, leads to: the store's error if it has no
  file under that key, and otherwise the constructed model with the state that
  \<^verbatim>\<open>torch.load\<close> reads at the path the store returned for that key. The store is asked
  exactly once, for that key. The prefix is \<^verbatim>\<open>fcn32s\<close> also when the 16s or the 8s variant
  is built. A dataset without an acronym raises \<^verbatim>\<open>KeyError\<close> and the store is not asked.
\<close>

theorem factories_resolve_fcn32s_key:
  assumes "datasets env dataset = Some nclass"
    and "fst (FCN32s_init env nclass backbone a pretrained_base hi ai tr) = Inr m32"
    and "fst (FCN16s_init env nclass backbone a pretrained_base hi si4 ai tr) = Inr m16"
    and "fst (FCN8s_init env nclass backbone a pretrained_base hi si3 si4 ai tr) = Inr m8"
  shows "fst (get_fcn32s env dataset backbone True root_dir pretrained_base a hi ai tr) =
           (case acronyms dataset of
              None \<Rightarrow> Inl (KeyError dataset)
            | Some acr \<Rightarrow>
                bindE (get_model_file env (''fcn32s_'' @ backbone @ ''_'' @ acr) root_dir) (\<lambda>path.
                bindE (torch_load env path) (\<lambda>sd. load_state_dict32 env m32 sd)))
       \<and> fst (get_fcn16s env dataset backbone True root_dir pretrained_base a hi si4 ai tr) =
           (case acronyms dataset of
              None \<Rightarrow> Inl (KeyError dataset)
            | Some acr \<Rightarrow>
                bindE (get_model_file env (''fcn32s_'' @ backbone @ ''_'' @ acr) root_dir) (\<lambda>path.
                bindE (torch_load env path) (\<lambda>sd. load_state_dict16 env m16 sd)))
       \<and> fst (get_fcn8s env dataset backbone True root_dir pretrained_base a hi si3 si4 ai tr) =
           (case acronyms dataset of
              None \<Rightarrow> Inl (KeyError dataset)
            | Some acr \<Rightarrow>
                bindE (get_model_file env (''fcn32s_'' @ backbone @ ''_'' @ acr) root_dir) (\<lambda>path.
                bindE (torch_load env path) (\<lambda>sd. load_state_dict8 env m8 sd)))
       \<and> model_file_calls (snd (get_fcn32s env dataset backbone True root_dir pretrained_base a hi ai tr))
           = model_file_calls tr @
             (case acronyms dataset of
                None \<Rightarrow> []
              | Some acr \<Rightarrow> [(''fcn32s_'' @ backbone @ ''_'' @ acr, root_dir)])
       \<and> model_file_calls (snd (get_fcn16s env dataset backbone True root_dir pretrained_base a hi si4 ai tr))
           = model_file_calls tr @
             (case acronyms dataset of
                None \<Rightarrow> []
              | Some acr \<Rightarrow> [(''fcn32s_'' @ backbone @ ''_'' @ acr, root_dir)])
       \<and> model_file_calls (snd (get_fcn8s env dataset backbone True root_dir pretrained_base a hi si3 si4 ai tr))
           = model_file_calls tr @
             (case acronyms dataset of
                None \<Rightarrow> []
              | Some acr \<Rightarrow> [(''fcn32s_'' @ backbone @ ''_'' @ acr, root_dir)])"
proof -
  from assms(2) obtain fs where fs: "vgg16 env pretrained_base = Inr fs" and b: "backbone = ''vgg16''"
    by (auto simp: FCN32s_init_def split: if_splits sum.splits)
  from assms(2) fs b have i32: "FCN32s_init env nclass backbone a pretrained_base hi ai tr
      = (Inr m32, tr @ [CallVgg16 pretrained_base])"
    by (auto simp: FCN32s_init_def)
  from assms(3) fs b have i16: "FCN16s_init env nclass backbone a pretrained_base hi si4 ai tr
      = (Inr m16, tr @ [CallVgg16 pretrained_base])"
    by (auto simp: FCN16s_init_def)
  from assms(4) fs b have i8: "FCN8s_init env nclass backbone a pretrained_base hi si3 si4 ai tr
      = (Inr m8, tr @ [CallVgg16 pretrained_base])"
    by (auto simp: FCN8s_init_def)
  have r32: "fst (get_fcn32s env dataset backbone True root_dir pretrained_base a hi ai tr) =
           (case acronyms dataset of
              None \<Rightarrow> Inl (KeyError dataset)
            | Some acr \<Rightarrow>
                bindE (get_model_file env (''fcn32s_'' @ backbone @ ''_'' @ acr) root_dir) (\<lambda>path.
                bindE (torch_load env path) (\<lambda>sd. load_state_dict32 env m32 sd)))"
    by (simp add: get_fcn32s_def assms(1) i32 Let_def bindE_def split: option.splits sum.splits)
  have r16: "fst (get_fcn16s env dataset backbone True root_dir pretrained_base a hi si4 ai tr) =
           (case acronyms dataset of
              None \<Rightarrow> Inl (KeyError dataset)
            | Some acr \<Rightarrow>
                bindE (get_model_file env (''fcn32s_'' @ backbone @ ''_'' @ acr) root_dir) (\<lambda>path.
                bindE (torch_load env path) (\<lambda>sd. load_state_dict16 env m16 sd)))"
    by (simp add: get_fcn16s_def assms(1) i16 Let_def bindE_def split: option.splits sum.splits)
  have r8: "fst (get_fcn8s env dataset backbone True root_dir pretrained_base a hi si3 si4 ai tr) =
           (case acronyms dataset of
              None \<Rightarrow> Inl (KeyError dataset)
            | Some acr \<Rightarrow>
                bindE (get_model_file env (''fcn32s_'' @ backbone @ ''_'' @ acr) root_dir) (\<lambda>path.
                bindE (torch_load env path) (\<lambda>sd. load_state_dict8 env m8 sd)))"
    by (simp add: get_fcn8s_def assms(1) i8 Let_def bindE_def split: option.splits sum.splits)
  have t32: "model_file_calls (snd (get_fcn32s env dataset backbone True root_dir pretrained_base a hi ai tr))
           = model_file_calls tr @
             (case acronyms dataset of
                None \<Rightarrow> []
              | Some acr \<Rightarrow> [(''fcn32s_'' @ backbone @ ''_'' @ acr, root_dir)])"
    by (simp add: get_fcn32s_def assms(1) i32 Let_def model_file_calls_append
        split: option.splits sum.splits)
  have t16: "model_file_calls (snd (get_fcn16s env dataset backbone True root_dir pretrained_base a hi si4 ai tr))
           = model_file_calls tr @
             (case acronyms dataset of
                None \<Rightarrow> []
              | Some acr \<Rightarrow> [(''fcn32s_'' @ backbone @ ''_'' @ acr, root_dir)])"
    by (simp add: get_fcn16s_def assms(1) i16 Let_def model_file_calls_append
        split: option.splits sum.splits)
  have t8: "model_file_calls (snd (get_fcn8s env dataset backbone True root_dir pretrained_base a hi si3 si4 ai tr))
           = model_file_calls tr @
             (case acronyms dataset of
                None \<Rightarrow> []
              | Some acr \<Rightarrow> [(''fcn32s_'' @ backbone @ ''_'' @ acr, root_dir)])"
    by (simp add: get_fcn8s_def assms(1) i8 Let_def model_file_calls_append
        split: option.splits sum.splits)
  from r32 r16 r8 t32 t16 t8 show ?thesis by blast
qed


theorem factories_resolve_fcn32s_key_witness:
  "datasets example_env ''pascal_voc'' = Some 21
   \<and> acronyms ''pascal_voc'' = Some ''pascal_voc''
   \<and> fst (FCN32s_init example_env 21 ''vgg16'' True True (zero_init, zero_init)
        (zero_init, zero_init) []) = Inr example_fcn32s
   \<and> fst (FCN16s_init example_env 21 ''vgg16'' True True (zero_init, zero_init) zero_init
        (zero_init, zero_init) []) = Inr example_fcn16s
   \<and> fst (FCN8s_init example_env 21 ''vgg16'' True True (zero_init, zero_init) zero_init zero_init
        (zero_init, zero_init) []) = Inr example_fcn8s
   \<and> fst (get_fcn32s example_env ''pascal_voc'' ''vgg16'' True ''~/.torch/models'' True True
        (zero_init, zero_init) (zero_init, zero_init) [])
        = bindE (get_model_file example_env ''fcn32s_vgg16_pascal_voc'' ''~/.torch/models'') (\<lambda>path.
          bindE (torch_load example_env path) (\<lambda>sd. load_state_dict32 example_env example_fcn32s sd))
   \<and> fst (get_fcn16s example_env ''pascal_voc'' ''vgg16'' True ''~/.torch/models'' True True
        (zero_init, zero_init) zero_init (zero_init, zero_init) [])
        = bindE (get_model_file example_env ''fcn32s_vgg16_pascal_voc'' ''~/.torch/models'') (\<lambda>path.
          bindE (torch_load example_env path) (\<lambda>sd. load_state_dict16 example_env example_fcn16s sd))
   \<and> fst (get_fcn8s example_env ''pascal_voc'' ''vgg16'' True ''~/.torch/models'' True True
        (zero_init, zero_init) zero_init zero_init (zero_init, zero_init) [])
        = bindE (get_model_file example_env ''fcn32s_vgg16_pascal_voc'' ''~/.torch/models'') (\<lambda>path.
          bindE (torch_load example_env path) (\<lambda>sd. load_state_dict8 example_env example_fcn8s sd))
   \<and> model_file_calls (snd (get_fcn32s example_env ''pascal_voc'' ''vgg16'' True ''~/.torch/models''
        True True (zero_init, zero_init) (zero_init, zero_init) []))
        = [(''fcn32s_vgg16_pascal_voc'', ''~/.torch/models'')]
   \<and> model_file_calls (snd (get_fcn16s example_env ''pascal_voc'' ''vgg16'' True ''~/.torch/models''
        True True (zero_init, zero_init) zero_init (zero_init, zero_init) []))
        = [(''fcn32s_vgg16_pascal_voc'', ''~/.torch/models'')]
   \<and> model_file_calls (snd (get_fcn8s example_env ''pascal_voc'' ''vgg16'' True ''~/.torch/models''
        True True (zero_init, zero_init) zero_init zero_init (zero_init, zero_init) []))
        = [(''fcn32s_vgg16_pascal_voc'', ''~/.torch/models'')]"
proof -
  have d: "datasets example_env ''pascal_voc'' = Some 21"
    by (simp add: example_env_def)
  have a: "acronyms ''pascal_voc'' = Some ''pascal_voc''"
    by (simp add: acronyms_def)
  show ?thesis
    using d a example_inits
      factories_resolve_fcn32s_key [OF d example_inits(1) example_inits(2) example_inits(3),
        of "''~/.torch/models''"]
    by simp
qed

text \<open>
  Claim C5. For a dataset identifier that is not registered, each of the three factory
  functions raises \<^verbatim>\<open>KeyError\<close>, and the trace is unchanged: the backbone was not
  constructed, the class count being looked up before the constructor runs.
\<close>

theorem unknown_dataset_raises_before_construction:
  assumes "datasets env dataset = None"
  shows "get_fcn32s env dataset backbone pretrained root_dir pretrained_base a hi ai tr
           = (Inl (KeyError dataset), tr)
       \<and> get_fcn16s env dataset backbone pretrained root_dir pretrained_base a hi si4 ai tr
           = (Inl (KeyError dataset), tr)
       \<and> get_fcn8s env dataset backbone pretrained root_dir pretrained_base a hi si3 si4 ai tr
           = (Inl (KeyError dataset), tr)"
  using assms by (simp add: get_fcn32s_def get_fcn16s_def get_fcn8s_def)

theorem unknown_dataset_raises_before_construction_witness:
  "datasets example_env ''not_a_dataset'' = None
   \<and> get_fcn32s example_env ''not_a_dataset'' ''vgg16'' False ''~/.torch/models'' True
        False (zero_init, zero_init) (zero_init, zero_init) []
        = (Inl (KeyError ''not_a_dataset''), [])
   \<and> get_fcn16s example_env ''not_a_dataset'' ''vgg16'' False ''~/.torch/models'' True
        False (zero_init, zero_init) zero_init (zero_init, zero_init) []
        = (Inl (KeyError ''not_a_dataset''), [])
   \<and> get_fcn8s example_env ''not_a_dataset'' ''vgg16'' False ''~/.torch/models'' True
        False (zero_init, zero_init) zero_init zero_init (zero_init, zero_init) []
        = (Inl (KeyError ''not_a_dataset''), [])"
proof -
  have d: "datasets example_env ''not_a_dataset'' = None"
    by (simp add: example_env_def)
  show ?thesis
    using d unknown_dataset_raises_before_construction [OF d, of "''vgg16''" False
        "''~/.torch/models''" True False "(zero_init, zero_init)" "(zero_init, zero_init)" "[]"
        zero_init zero_init]
    by simp
qed

text \<open>
  Claim C6. For a backbone identifier other than \<^verbatim>\<open>vgg16\<close>, each of the three constructors
  raises \<^verbatim>\<open>RuntimeError('unknown backbone: ...')\<close> without constructing a backbone, and each
  factory function, called for a registered dataset, lets the error through: it returns
  the same error and calls nothing further.
\<close>

theorem unknown_backbone_raises:
  assumes "backbone \<noteq> ''vgg16''"
  shows "FCN32s_init env nclass backbone a pretrained_base hi ai tr
           = (Inl (RuntimeError (''unknown backbone: '' @ backbone)), tr)
       \<and> FCN16s_init env nclass backbone a pretrained_base hi si4 ai tr
           = (Inl (RuntimeError (''unknown backbone: '' @ backbone)), tr)
       \<and> FCN8s_init env nclass backbone a pretrained_base hi si3 si4 ai tr
           = (Inl (RuntimeError (''unknown backbone: '' @ backbone)), tr)
       \<and> (datasets env dataset = Some nclass \<longrightarrow>
            get_fcn32s env dataset backbone pretrained root_dir pretrained_base a hi ai tr
              = (Inl (RuntimeError (''unknown backbone: '' @ backbone)), tr)
          \<and> get_fcn16s env dataset backbone pretrained root_dir pretrained_base a hi si4 ai tr
              = (Inl (RuntimeError (''unknown backbone: '' @ backbone)), tr)
          \<and> get_fcn8s env dataset backbone pretrained root_dir pretrained_base a hi si3 si4 ai tr
              = (Inl (RuntimeError (''unknown backbone: '' @ backbone)), tr))"
  using assms
  by (simp add: FCN32s_init_def FCN16s_init_def FCN8s_init_def get_fcn32s_def get_fcn16s_def
      get_fcn8s_def)

theorem unknown_backbone_raises_witness:
  "''resnet999'' \<noteq> ''vgg16''
   \<and> datasets example_env ''pascal_voc'' = Some 21
   \<and> FCN32s_init example_env 21 ''resnet999'' False True (zero_init, zero_init)
        (zero_init, zero_init) []
        = (Inl (RuntimeError ''unknown backbone: resnet999''), [])
   \<and> FCN16s_init example_env 21 ''resnet999'' False True (zero_init, zero_init) zero_init
        (zero_init, zero_init) []
        = (Inl (RuntimeError ''unknown backbone: resnet999''), [])
   \<and> FCN8s_init example_env 21 ''resnet999'' False True (zero_init, zero_init) zero_init zero_init
        (zero_init, zero_init) []
        = (Inl (RuntimeError ''unknown backbone: resnet999''), [])
   \<and> get_fcn32s example_env ''pascal_voc'' ''resnet999'' True ''~/.torch/models'' True False
        (zero_init, zero_init) (zero_init, zero_init) []
        = (Inl (RuntimeError ''unknown backbone: resnet999''), [])
   \<and> get_fcn16s example_env ''pascal_voc'' ''resnet999'' True ''~/.torch/models'' True False
        (zero_init, zero_init) zero_init (zero_init, zero_init) []
        = (Inl (RuntimeError ''unknown backbone: resnet999''), [])
   \<and> get_fcn8s example_env ''pascal_voc'' ''resnet999'' True ''~/.torch/models'' True False
        (zero_init, zero_init) zero_init zero_init (zero_init, zero_init) []
        = (Inl (RuntimeError ''unknown backbone: resnet999''), [])"
proof -
  have b: "''resnet999'' \<noteq> ''vgg16''"
    by simp
  have d: "datasets example_env ''pascal_voc'' = Some 21"
    by (simp add: example_env_def)
  show ?thesis
    using b d unknown_backbone_raises [OF b, of example_env 21 False True "(zero_init, zero_init)"
        "(zero_init, zero_init)" "[]" zero_init zero_init "''pascal_voc''" True "''~/.torch/models''"]
    by simp
qed

section \<open>Sizes and architectures along the forward pass\<close>

lemma bindE_simps [simp]:
  "bindE (Inl e) f = Inl e"
  "bindE (Inr v) f = f v"
  by (simp_all add: bindE_def)

lemma layer_forward_shape:
  "map_sum id (\<lambda>(y, l', g'). dims y) (layer_forward t l g x) = layer_shape t (arch_of l) (dims x)"
  by (cases l) (auto simp: dims_def conv2d_def max_pool2d_def normalize_def relu_def dropout_train_def Let_def)

lemma layer_forward_arch:
  "layer_forward t l g x = Inr (y, l', g') \<Longrightarrow> arch_of l' = arch_of l"
  by (cases l) (auto simp: Let_def split: sum.splits if_splits)

lemma Sequential_forward_shape:
  "map_sum id (\<lambda>(y, l', g'). dims y) (Sequential_forward t ls g x) = Sequential_shape t (map arch_of ls) (dims x)"
proof (induction ls arbitrary: g x)
  case Nil
  then show ?case by simp
next
  case (Cons l ls)
  show ?case
  proof (cases "layer_forward t l g x")
    case (Inl e)
    with layer_forward_shape [of t l g x]
    have "layer_shape t (arch_of l) (dims x) = Inl e" by simp
    with Inl show ?thesis by simp
  next
    case (Inr r)
    obtain y l' g' where r: "r = (y, l', g')" by (cases r)
    from Inr r layer_forward_shape [of t l g x]
    have s: "layer_shape t (arch_of l) (dims x) = Inr (dims y)" by simp
    from Cons.IH [of g' y] Inr r s show ?thesis
      by (cases "Sequential_forward t ls g' y") auto
  qed
qed

lemma Sequential_forward_arch:
  "Sequential_forward t ls g x = Inr (y, ls', g') \<Longrightarrow> map arch_of ls' = map arch_of ls"
proof (induction ls arbitrary: g x y ls' g')
  case Nil
  then show ?case by simp
next
  case (Cons l ls)
  then show ?case
    by (auto split: sum.splits simp: layer_forward_arch)
qed

lemma Sequential_forward_ok:
  assumes "Sequential_shape t (map arch_of ls) (dims x) = Inr s"
  shows "\<exists>y ls' g'. Sequential_forward t ls g x = Inr (y, ls', g') \<and> dims y = s
           \<and> map arch_of ls' = map arch_of ls"
proof (cases "Sequential_forward t ls g x")
  case (Inl e)
  with Sequential_forward_shape [of t ls g x] assms show ?thesis by simp
next
  case (Inr r)
  obtain y ls' g' where r: "r = (y, ls', g')" by (cases r)
  from Inr r Sequential_forward_shape [of t ls g x] assms have "dims y = s" by simp
  with Inr r Sequential_forward_arch [of t ls g x y ls' g'] show ?thesis by simp
qed

lemma Sequential_forward_fails:
  assumes "Sequential_shape t (map arch_of ls) (dims x) = Inl e"
  shows "Sequential_forward t ls g x = Inl e"
proof (cases "Sequential_forward t ls g x")
  case (Inl e')
  with Sequential_forward_shape [of t ls g x] assms show ?thesis by simp
next
  case (Inr r)
  obtain y ls' g' where r: "r = (y, ls', g')" by (cases r)
  from Inr r Sequential_forward_shape [of t ls g x] assms show ?thesis by simp
qed

lemma layer_forward_ok:
  assumes "layer_shape t (arch_of l) (dims x) = Inr s"
  shows "\<exists>y l' g'. layer_forward t l g x = Inr (y, l', g') \<and> dims y = s \<and> arch_of l' = arch_of l"
proof (cases "layer_forward t l g x")
  case (Inl e)
  with layer_forward_shape [of t l g x] assms show ?thesis by simp
next
  case (Inr r)
  obtain y l' g' where r: "r = (y, l', g')" by (cases r)
  from Inr r layer_forward_shape [of t l g x] assms have "dims y = s" by simp
  with Inr r layer_forward_arch [of t l g x y l' g'] show ?thesis by simp
qed

lemma FCNHead_arch_shape:
  "Sequential_shape t (FCNHead_arch cin ch) (n, cin, h, w) =
     (if cin div 4 = 0 then Inl (RuntimeError ''conv2d: weight without channels'')
      else if h = 0 \<or> w = 0
      then Inl (RuntimeError ''conv2d: kernel size greater than padded input size'')
      else if t \<and> n * h * w = 1
      then Inl (ValueError ''Expected more than 1 value per channel when training'')
      else if ch = 0 then Inl (RuntimeError ''conv2d: weight without channels'')
      else Inr (n, ch, h, w))"
  by (auto simp: FCNHead_arch_def)

lemma interpolate_ok:
  "0 < hgt x \<Longrightarrow> 0 < wid x \<Longrightarrow> 0 < H \<Longrightarrow> 0 < W \<Longrightarrow>
     \<exists>y. interpolate x (H, W) = Inr y \<and> dims y = (bsz x, chans x, H, W)"
  by (simp add: interpolate_def dims_def)

lemma tensor_add_same:
  "dims a = dims b \<Longrightarrow>
     tensor_add a b = Inr (a\<lparr>val := (\<lambda>i j y x. val a i j y x + val b i j y x)\<rparr>)"
  by (simp add: tensor_add_def)

lemma layer_shape_pos:
  "layer_shape t a (n, c, h, w) = Inr (n', c', h', w') \<Longrightarrow> 0 < h \<Longrightarrow> 0 < w \<Longrightarrow>
     n' = n \<and> 0 < h' \<and> 0 < w'"
  by (cases a) (auto split: if_splits)

lemma Sequential_shape_pos:
  "Sequential_shape t as (n, c, h, w) = Inr (n', c', h', w') \<Longrightarrow> 0 < h \<Longrightarrow> 0 < w \<Longrightarrow>
     n' = n \<and> 0 < h' \<and> 0 < w'"
proof (induction as arbitrary: n c h w)
  case Nil
  then show ?case by simp
next
  case (Cons a as)
  from Cons.prems(1) obtain s where s: "layer_shape t a (n, c, h, w) = Inr s"
    and r: "Sequential_shape t as s = Inr (n', c', h', w')"
    by (auto split: sum.splits)
  obtain n1 c1 h1 w1 where s1: "s = (n1, c1, h1, w1)" by (cases s)
  from layer_shape_pos [of t a n c h w n1 c1 h1 w1] s s1 Cons.prems
  have "n1 = n \<and> 0 < h1 \<and> 0 < w1" by simp
  with Cons.IH [of n1 c1 h1 w1] r s1 show ?case by simp
qed

section \<open>The slices of the backbone\<close>

lemma Sequential_forward_append:
  "Sequential_forward t (as @ bs) g x =
     bindE (Sequential_forward t as g x) (\<lambda>(y, as', g1).
     bindE (Sequential_forward t bs g1 y) (\<lambda>(z, bs', g2). Inr (z, as' @ bs', g2)))"
proof (induction as arbitrary: g x)
  case Nil
  show ?case by (cases "Sequential_forward t bs g x") auto
next
  case (Cons a as)
  show ?case
    by (cases "layer_forward t a g x") (auto simp: Cons.IH bindE_def split: sum.splits)
qed

lemma Sequential_forward_append3:
  "Sequential_forward t (as @ bs @ cs) g x =
     bindE (Sequential_forward t as g x) (\<lambda>(y, as', g1).
     bindE (Sequential_forward t bs g1 y) (\<lambda>(z, bs', g2).
     bindE (Sequential_forward t cs g2 z) (\<lambda>(u, cs', g3). Inr (u, as' @ bs' @ cs', g3))))"
  by (simp add: Sequential_forward_append [of t as] Sequential_forward_append [of t bs] bindE_def
      split: sum.splits)

lemma slices3: "take 17 fs @ drop 17 (take 24 fs) @ drop 24 fs = fs"
proof -
  have "take 17 fs = take 17 (take 24 fs)" by simp
  then have "take 17 fs @ drop 17 (take 24 fs) = take 24 fs"
    by (metis append_take_drop_id)
  then show ?thesis by (metis append_assoc append_take_drop_id)
qed

text \<open>
  Claim C10. The constructors of the 16s and 8s variants cut the backbone that the 32s
  variant keeps whole: \<^verbatim>\<open>features[:24]\<close> and \<^verbatim>\<open>features[24:]\<close>, respectively
  \<^verbatim>\<open>features[:17]\<close>, \<^verbatim>\<open>features[17:24]\<close> and \<^verbatim>\<open>features[24:]\<close>. The slices, in order, make
  up the backbone without gap or overlap, and running them one after the other, each on
  the output of the one before, gives what running the whole backbone gives: the same
  output or the same exception, the same modules after the call and the same generator.
\<close>

theorem backbone_slices_partition:
  assumes "fst (FCN32s_init env nclass backbone a pretrained_base hi ai tr) = Inr m32"
    and "fst (FCN16s_init env nclass backbone a pretrained_base hi si4 ai tr) = Inr m16"
    and "fst (FCN8s_init env nclass backbone a pretrained_base hi si3 si4 ai tr) = Inr m8"
  shows "pool4 m16 = take 24 (features m32) \<and> pool5 m16 = drop 24 (features m32)
       \<and> pool4 m16 @ pool5 m16 = features m32
       \<and> pool3 m8 = take 17 (features m32) \<and> pool4 m8 = drop 17 (take 24 (features m32))
       \<and> pool5 m8 = drop 24 (features m32)
       \<and> pool3 m8 @ pool4 m8 @ pool5 m8 = features m32
       \<and> bindE (Sequential_forward t (pool4 m16) g x) (\<lambda>(pool4_v, pool4', g1).
           bindE (Sequential_forward t (pool5 m16) g1 pool4_v) (\<lambda>(pool5_v, pool5', g2).
             Inr (pool5_v, pool4' @ pool5', g2)))
           = Sequential_forward t (features m32) g x
       \<and> bindE (Sequential_forward t (pool3 m8) g x) (\<lambda>(pool3_v, pool3', g1).
           bindE (Sequential_forward t (pool4 m8) g1 pool3_v) (\<lambda>(pool4_v, pool4', g2).
           bindE (Sequential_forward t (pool5 m8) g2 pool4_v) (\<lambda>(pool5_v, pool5', g3).
             Inr (pool5_v, pool3' @ pool4' @ pool5', g3))))
           = Sequential_forward t (features m32) g x"
proof -
  from assms(1) obtain fs where fs: "vgg16 env pretrained_base = Inr fs" and b: "backbone = ''vgg16''"
    and f32: "features m32 = fs"
    by (auto simp: FCN32s_init_def split: if_splits sum.splits)
  from assms(2) fs b have m16: "pool4 m16 = take 24 fs" "pool5 m16 = drop 24 fs"
    by (auto simp: FCN16s_init_def)
  from assms(3) fs b have m8: "pool3 m8 = take 17 fs" "pool4 m8 = drop 17 (take 24 fs)"
    "pool5 m8 = drop 24 fs"
    by (auto simp: FCN8s_init_def)
  have "Sequential_forward t (take 24 fs @ drop 24 fs) g x = Sequential_forward t fs g x"
    by simp
  then have two: "bindE (Sequential_forward t (take 24 fs) g x) (\<lambda>(pool4_v, pool4', g1).
           bindE (Sequential_forward t (drop 24 fs) g1 pool4_v) (\<lambda>(pool5_v, pool5', g2).
             Inr (pool5_v, pool4' @ pool5', g2)))
           = Sequential_forward t fs g x"
    by (simp only: Sequential_forward_append)
  have "Sequential_forward t (take 17 fs @ drop 17 (take 24 fs) @ drop 24 fs) g x
      = Sequential_forward t fs g x"
    by (simp only: slices3)
  then have three: "bindE (Sequential_forward t (take 17 fs) g x) (\<lambda>(pool3_v, pool3', g1).
           bindE (Sequential_forward t (drop 17 (take 24 fs)) g1 pool3_v) (\<lambda>(pool4_v, pool4', g2).
           bindE (Sequential_forward t (drop 24 fs) g2 pool4_v) (\<lambda>(pool5_v, pool5', g3).
             Inr (pool5_v, pool3' @ pool4' @ pool5', g3))))
           = Sequential_forward t fs g x"
    by (simp only: Sequential_forward_append3)
  have p2: "take 24 fs @ drop 24 fs = fs" by simp
  show ?thesis
    unfolding m16 m8 f32
    using two three p2 slices3 [of fs] by blast
qed

theorem backbone_slices_partition_witness:
  "fst (FCN32s_init example_env 21 ''vgg16'' True True (zero_init, zero_init) (zero_init, zero_init) [])
     = Inr example_fcn32s
   \<and> fst (FCN16s_init example_env 21 ''vgg16'' True True (zero_init, zero_init) zero_init
        (zero_init, zero_init) []) = Inr example_fcn16s
   \<and> fst (FCN8s_init example_env 21 ''vgg16'' True True (zero_init, zero_init) zero_init zero_init
        (zero_init, zero_init) []) = Inr example_fcn8s
   \<and> pool4 example_fcn16s @ pool5 example_fcn16s = features example_fcn32s
   \<and> pool3 example_fcn8s @ pool4 example_fcn8s @ pool5 example_fcn8s = features example_fcn32s
   \<and> bindE (Sequential_forward False (pool4 example_fcn16s) example_rng example_input)
        (\<lambda>(pool4_v, pool4', g1).
           bindE (Sequential_forward False (pool5 example_fcn16s) g1 pool4_v) (\<lambda>(pool5_v, pool5', g2).
             Inr (pool5_v, pool4' @ pool5', g2)))
        = Sequential_forward False (features example_fcn32s) example_rng example_input
   \<and> bindE (Sequential_forward False (pool3 example_fcn8s) example_rng example_input)
        (\<lambda>(pool3_v, pool3', g1).
           bindE (Sequential_forward False (pool4 example_fcn8s) g1 pool3_v) (\<lambda>(pool4_v, pool4', g2).
           bindE (Sequential_forward False (pool5 example_fcn8s) g2 pool4_v) (\<lambda>(pool5_v, pool5', g3).
             Inr (pool5_v, pool3' @ pool4' @ pool5', g3))))
        = Sequential_forward False (features example_fcn32s) example_rng example_input"
  using example_inits
    backbone_slices_partition [OF example_inits(1) example_inits(2) example_inits(3),
      of False example_rng example_input]
  by blast

section \<open>The prediction head is a convolution, a normalisation, a rectifier, a dropout and a convolution\<close>

lemma conv2d_dims:
  "conv2d cin cout k p w b x = Inr y \<Longrightarrow>
     dims y = (bsz x, cout, hgt x + 2 * p + 1 - k, wid x + 2 * p + 1 - k) \<and> chans x = cin"
  by (auto simp: conv2d_def dims_def split: if_splits)

lemma FCNHead_arch_shape_Inr:
  "Sequential_shape t (FCNHead_arch cin ch) (n, c, h, w) = Inr s \<Longrightarrow> s = (n, ch, h, w)"
  by (auto simp: FCNHead_arch_def split: if_splits)

lemma FCNHead_forward_eval:
  "FCNHead_forward False
     [Conv2d cin (cin div 4) 3 1 w1 None, BatchNorm2d (cin div 4) ga be rm rv nbt, ReLU,
      Dropout (1 / 10), Conv2d (cin div 4) ch 1 0 w2 (Some b2)] g x =
   bindE (conv2d cin (cin div 4) 3 1 w1 None x) (\<lambda>a.
   bindE (conv2d (cin div 4) ch 1 0 w2 (Some b2) (relu (normalize rm rv ga be a))) (\<lambda>y.
     Inr (y, [Conv2d cin (cin div 4) 3 1 w1 None, BatchNorm2d (cin div 4) ga be rm rv nbt, ReLU,
      Dropout (1 / 10), Conv2d (cin div 4) ch 1 0 w2 (Some b2)], g)))"
proof (cases "conv2d cin (cin div 4) 3 1 w1 None x")
  case (Inl e)
  then show ?thesis by (simp add: FCNHead_forward_def)
next
  case (Inr a)
  from conv2d_dims [OF Inr] have c: "chans a = cin div 4" by (simp add: dims_def)
  show ?thesis
    by (cases "conv2d (cin div 4) ch 1 0 w2 (Some b2) (relu (normalize rm rv ga be a))")
      (simp_all add: FCNHead_forward_def Inr c del: One_nat_def)
qed

lemma FCNHead_forward_train:
  "map_sum id fst (FCNHead_forward True
     [Conv2d cin (cin div 4) 3 1 w1 None, BatchNorm2d (cin div 4) ga be rm rv nbt, ReLU,
      Dropout (1 / 10), Conv2d (cin div 4) ch 1 0 w2 (Some b2)] g x) =
   bindE (conv2d cin (cin div 4) 3 1 w1 None x) (\<lambda>a.
     if bsz a * hgt a * wid a = 1
     then Inl (ValueError ''Expected more than 1 value per channel when training'')
     else conv2d (cin div 4) ch 1 0 w2 (Some b2)
            (dropout_train (1 / 10) (g 0) (relu (normalize (batch_mean a) (batch_var a) ga be a))))"
proof (cases "conv2d cin (cin div 4) 3 1 w1 None x")
  case (Inl e)
  then show ?thesis by (simp add: FCNHead_forward_def)
next
  case (Inr a)
  from conv2d_dims [OF Inr] have c: "chans a = cin div 4" by (simp add: dims_def)
  show ?thesis
    by (cases "conv2d (cin div 4) ch 1 0 w2 (Some b2)
            (dropout_train (1 / 10) (g 0) (relu (normalize (batch_mean a) (batch_var a) ga be a)))")
      (simp_all add: FCNHead_forward_def Inr c Let_def del: One_nat_def)
qed

lemma FCNHead_forward_dims:
  assumes "map arch_of block = FCNHead_arch cin ch"
    and "FCNHead_forward t block g x = Inr (y, block', g')"
  shows "dims y = (bsz x, ch, hgt x, wid x) \<and> map arch_of block' = map arch_of block"
proof -
  from assms(2) Sequential_forward_shape [of t block g x]
  have "Sequential_shape t (FCNHead_arch cin ch) (bsz x, chans x, hgt x, wid x) = Inr (dims y)"
    by (simp add: FCNHead_forward_def assms(1) dims_def)
  from FCNHead_arch_shape_Inr [OF this] assms(2) Sequential_forward_arch [of t block g x y block' g']
  show ?thesis by (simp add: FCNHead_forward_def)
qed

lemma FCNHead_forward_ok:
  assumes "map arch_of block = FCNHead_arch cin ch"
    and "chans x = cin" "0 < cin div 4" "0 < ch" "0 < hgt x" "0 < wid x"
    and "\<not> (t \<and> bsz x * hgt x * wid x = 1)"
  shows "\<exists>y block' g'. FCNHead_forward t block g x = Inr (y, block', g')"
proof -
  have "Sequential_shape t (map arch_of block) (dims x) = Inr (bsz x, ch, hgt x, wid x)"
    using assms FCNHead_arch_shape [of t cin ch "bsz x" "hgt x" "wid x"]
    by (auto simp: dims_def)
  from Sequential_forward_ok [OF this, of g] show ?thesis
    by (auto simp: FCNHead_forward_def)
qed

text \<open>
  Claim C7. The head that \<^verbatim>\<open>_FCNHead.__init__\<close> builds for \<open>cin\<close> input channels is the
  sequence of a 3x3 convolution with padding 1 and no bias to \<open>cin div 4\<close> channels, a batch
  normalisation, a rectifier, a dropout of rate 0.1 and a 1x1 convolution with bias from
  \<open>cin div 4\<close> to \<open>ch\<close> channels. Whatever the parameters of such a block, its forward pass
  in evaluation mode is the second convolution of the rectified, normalised (with the
  running statistics) output of the first convolution, the dropout being the identity;
  in training mode the dropout zeroes the entries outside the mask drawn from the
  generator and divides the others by 0.9. Every output of the head has the batch size and
  the spatial size of the input and \<open>ch\<close> channels, and the head does return an output for
  an input of \<open>cin\<close> channels and positive size (of more than one value per channel in
  training mode).
\<close>

theorem FCNHead_is_conv_bn_relu_dropout_conv:
  assumes "block = [Conv2d cin (cin div 4) 3 1 w1 None, BatchNorm2d (cin div 4) ga be rm rv nbt,
      ReLU, Dropout (1 / 10), Conv2d (cin div 4) ch 1 0 w2 (Some b2)]"
  shows "FCNHead cin ch i =
           [Conv2d cin (cin div 4) 3 1 (fst (fst i)) None, BatchNorm2d_new (cin div 4),
            ReLU, Dropout (1 / 10), Conv2d (cin div 4) ch 1 0 (fst (snd i)) (Some (snd (snd i)))]
       \<and> FCNHead_forward False block g x =
           bindE (conv2d cin (cin div 4) 3 1 w1 None x) (\<lambda>a.
           bindE (conv2d (cin div 4) ch 1 0 w2 (Some b2) (relu (normalize rm rv ga be a))) (\<lambda>y.
             Inr (y, block, g)))
       \<and> map_sum id fst (FCNHead_forward True block g x) =
           bindE (conv2d cin (cin div 4) 3 1 w1 None x) (\<lambda>a.
             if bsz a * hgt a * wid a = 1
             then Inl (ValueError ''Expected more than 1 value per channel when training'')
             else conv2d (cin div 4) ch 1 0 w2 (Some b2)
                    (dropout_train (1 / 10) (g 0)
                       (relu (normalize (batch_mean a) (batch_var a) ga be a))))
       \<and> (\<forall>y block' g'. FCNHead_forward t block g x = Inr (y, block', g') \<longrightarrow>
            bsz y = bsz x \<and> chans y = ch \<and> hgt y = hgt x \<and> wid y = wid x
            \<and> map arch_of block' = map arch_of block)
       \<and> (chans x = cin \<and> 0 < cin div 4 \<and> 0 < ch \<and> 0 < hgt x \<and> 0 < wid x
            \<and> \<not> (t \<and> bsz x * hgt x * wid x = 1) \<longrightarrow>
            (\<exists>y block' g'. FCNHead_forward t block g x = Inr (y, block', g')))"
proof -
  have a: "map arch_of block = FCNHead_arch cin ch"
    by (simp add: assms FCNHead_arch_def)
  have 1: "FCNHead cin ch i =
           [Conv2d cin (cin div 4) 3 1 (fst (fst i)) None, BatchNorm2d_new (cin div 4),
            ReLU, Dropout (1 / 10), Conv2d (cin div 4) ch 1 0 (fst (snd i)) (Some (snd (snd i)))]"
    by (simp add: FCNHead_def Conv2d_new_def Let_def)
  have 4: "\<forall>y block' g'. FCNHead_forward t block g x = Inr (y, block', g') \<longrightarrow>
            bsz y = bsz x \<and> chans y = ch \<and> hgt y = hgt x \<and> wid y = wid x
            \<and> map arch_of block' = map arch_of block"
  proof (intro allI impI)
    fix y block' g'
    assume r: "FCNHead_forward t block g x = Inr (y, block', g')"
    from FCNHead_forward_dims [OF a r]
    show "bsz y = bsz x \<and> chans y = ch \<and> hgt y = hgt x \<and> wid y = wid x
            \<and> map arch_of block' = map arch_of block"
      by (simp add: dims_def)
  qed
  have 5: "chans x = cin \<and> 0 < cin div 4 \<and> 0 < ch \<and> 0 < hgt x \<and> 0 < wid x
            \<and> \<not> (t \<and> bsz x * hgt x * wid x = 1) \<longrightarrow>
            (\<exists>y block' g'. FCNHead_forward t block g x = Inr (y, block', g'))"
  proof (intro impI, elim conjE)
    assume h: "chans x = cin" "0 < cin div 4" "0 < ch" "0 < hgt x" "0 < wid x"
      "\<not> (t \<and> bsz x * hgt x * wid x = 1)"
    show "\<exists>y block' g'. FCNHead_forward t block g x = Inr (y, block', g')"
      by (rule FCNHead_forward_ok [OF a h])
  qed
  have 2: "FCNHead_forward False block g x =
           bindE (conv2d cin (cin div 4) 3 1 w1 None x) (\<lambda>a.
           bindE (conv2d (cin div 4) ch 1 0 w2 (Some b2) (relu (normalize rm rv ga be a))) (\<lambda>y.
             Inr (y, block, g)))"
    unfolding assms by (rule FCNHead_forward_eval)
  have 3: "map_sum id fst (FCNHead_forward True block g x) =
           bindE (conv2d cin (cin div 4) 3 1 w1 None x) (\<lambda>a.
             if bsz a * hgt a * wid a = 1
             then Inl (ValueError ''Expected more than 1 value per channel when training'')
             else conv2d (cin div 4) ch 1 0 w2 (Some b2)
                    (dropout_train (1 / 10) (g 0)
                       (relu (normalize (batch_mean a) (batch_var a) ga be a))))"
    unfolding assms by (rule FCNHead_forward_train)
  show ?thesis
    by (rule conjI [OF 1 conjI [OF 2 conjI [OF 3 conjI [OF 4 5]]]])
qed

theorem FCNHead_is_conv_bn_relu_dropout_conv_witness:
  "\<exists>y block' g'.
     FCNHead_forward False (FCNHead 512 21 (zero_init, zero_init)) example_rng
       \<lparr>bsz = 1, chans = 512, hgt = 2, wid = 2, val = (\<lambda>n c y x. real (c + y + x))\<rparr>
       = Inr (y, block', g')
     \<and> bsz y = 1 \<and> chans y = 21 \<and> hgt y = 2 \<and> wid y = 2"
proof -
  let ?x = "\<lparr>bsz = 1, chans = 512, hgt = 2, wid = 2, val = (\<lambda>n c y x. real (c + y + x))\<rparr>"
  have b: "FCNHead 512 21 (zero_init, zero_init) =
      [Conv2d 512 (512 div 4) 3 1 (fst zero_init) None,
       BatchNorm2d (512 div 4) (\<lambda>ch. 1) (\<lambda>ch. 0) (\<lambda>ch. 0) (\<lambda>ch. 1) 0,
       ReLU, Dropout (1 / 10), Conv2d (512 div 4) 21 1 0 (fst zero_init) (Some (snd zero_init))]"
    by (simp add: FCNHead_def Conv2d_new_def BatchNorm2d_new_def)
  note th = FCNHead_is_conv_bn_relu_dropout_conv [OF b, where g = example_rng and x = ?x and t = False]
  note th4 = th [THEN conjunct2, THEN conjunct2, THEN conjunct2, THEN conjunct1]
  note th5 = th [THEN conjunct2, THEN conjunct2, THEN conjunct2, THEN conjunct2]
  have "chans ?x = 512 \<and> 0 < (512::nat) div 4 \<and> 0 < (21::nat) \<and> 0 < hgt ?x \<and> 0 < wid ?x
      \<and> \<not> (False \<and> bsz ?x * hgt ?x * wid ?x = 1)"
    by simp
  with th5 obtain y block' g' where r: "FCNHead_forward False (FCNHead 512 21 (zero_init, zero_init))
      example_rng ?x = Inr (y, block', g')"
    by blast
  from th4 r have "bsz y = bsz ?x \<and> chans y = 21 \<and> hgt y = hgt ?x \<and> wid y = wid ?x"
    by blast
  then have "bsz y = 1 \<and> chans y = 21 \<and> hgt y = 2 \<and> wid y = 2"
    by simp
  with r show ?thesis by blast
qed

section \<open>The forward passes in evaluation mode\<close>

lemma layer_forward_eval:
  "layer_forward False l g x = map_sum id (\<lambda>r. (fst r, l, g)) (layer_forward False l g2 x)"
  by (cases l) (auto split: sum.splits)

lemma Sequential_forward_eval:
  "Sequential_forward False ls g x
     = map_sum id (\<lambda>r. (fst r, ls, g)) (Sequential_forward False ls g2 x)"
proof (induction ls arbitrary: g g2 x)
  case Nil
  show ?case by simp
next
  case (Cons l ls)
  show ?case
  proof (cases "layer_forward False l g2 x")
    case (Inl e)
    with layer_forward_eval [of l g x g2] show ?thesis by simp
  next
    case (Inr r)
    obtain y l' g2' where r: "r = (y, l', g2')" by (cases r)
    from Inr r layer_forward_eval [of l g x g2]
    have a: "layer_forward False l g x = Inr (y, l, g)" by simp
    from Cons.IH [of g y g2'] a Inr r show ?thesis
      by (cases "Sequential_forward False ls g2' y") auto
  qed
qed

lemma bindE_map_sum: "bindE (map_sum id h m) f = bindE m (\<lambda>v. f (h v))"
  by (cases m) simp_all

lemma map_sum_bindE: "map_sum id h (bindE m f) = bindE m (\<lambda>v. map_sum id h (f v))"
  by (cases m) simp_all

lemma auxlayer_update_same: "auxlayer m = v \<Longrightarrow> m\<lparr>auxlayer := v\<rparr> = m"
  by auto

lemma FCN32s_forward_eval:
  assumes "\<not> training m"
  shows "FCN32s_forward m g x = map_sum id (\<lambda>r. (fst r, m, g)) (FCN32s_forward m g2 x)"
proof -
  define S where "S = (\<lambda>ls x. map_sum id fst (Sequential_forward False ls g2 x))"
  have s: "Sequential_forward False ls g' x' = map_sum id (\<lambda>y. (y, ls, g')) (S ls x')" for ls g' x'
    unfolding S_def using Sequential_forward_eval [of ls g' x' g2]
    by (cases "Sequential_forward False ls g2 x'") simp_all
  show ?thesis
  proof (cases "aux m")
    case False
    then show ?thesis
      by (simp add: FCN32s_forward_def FCNHead_forward_def assms s bindE_map_sum map_sum_bindE)
  next
    case True
    show ?thesis
    proof (cases "auxlayer m")
      case None
      with True show ?thesis
        by (simp add: FCN32s_forward_def FCNHead_forward_def assms s bindE_map_sum map_sum_bindE)
    next
      case (Some al)
      with True show ?thesis
        by (simp add: FCN32s_forward_def FCNHead_forward_def assms s bindE_map_sum map_sum_bindE
            auxlayer_update_same)
    qed
  qed
qed

lemma FCN16s_forward_eval:
  assumes "\<not> training m" and f: "features m = pool4 m @ pool5 m"
  shows "FCN16s_forward m g x = map_sum id (\<lambda>r. (fst r, m, g)) (FCN16s_forward m g2 x)"
proof -
  define S where "S = (\<lambda>ls x. map_sum id fst (Sequential_forward False ls g2 x))"
  define L where "L = (\<lambda>l x. map_sum id fst (layer_forward False l g2 x))"
  have s: "Sequential_forward False ls g' x' = map_sum id (\<lambda>y. (y, ls, g')) (S ls x')" for ls g' x'
    unfolding S_def using Sequential_forward_eval [of ls g' x' g2]
    by (cases "Sequential_forward False ls g2 x'") simp_all
  have l: "layer_forward False l' g' x' = map_sum id (\<lambda>y. (y, l', g')) (L l' x')" for l' g' x'
    unfolding L_def using layer_forward_eval [of l' g' x' g2]
    by (cases "layer_forward False l' g2 x'") simp_all
  note f' = f [symmetric]
  show ?thesis
  proof (cases "aux m")
    case False
    then show ?thesis
      by (simp add: FCN16s_forward_def FCNHead_forward_def assms(1) f' s l bindE_map_sum map_sum_bindE)
  next
    case True
    show ?thesis
    proof (cases "auxlayer m")
      case None
      with True show ?thesis
        by (simp add: FCN16s_forward_def FCNHead_forward_def assms(1) f' s l bindE_map_sum map_sum_bindE)
    next
      case (Some al)
      with True show ?thesis
        by (simp add: FCN16s_forward_def FCNHead_forward_def assms(1) f' s l bindE_map_sum map_sum_bindE
            auxlayer_update_same)
    qed
  qed
qed

lemma FCN8s_forward_eval:
  assumes "\<not> training m" and f: "features m = pool3 m @ pool4 m @ pool5 m"
  shows "FCN8s_forward m g x = map_sum id (\<lambda>r. (fst r, m, g)) (FCN8s_forward m g2 x)"
proof -
  define S where "S = (\<lambda>ls x. map_sum id fst (Sequential_forward False ls g2 x))"
  define L where "L = (\<lambda>l x. map_sum id fst (layer_forward False l g2 x))"
  have s: "Sequential_forward False ls g' x' = map_sum id (\<lambda>y. (y, ls, g')) (S ls x')" for ls g' x'
    unfolding S_def using Sequential_forward_eval [of ls g' x' g2]
    by (cases "Sequential_forward False ls g2 x'") simp_all
  have l: "layer_forward False l' g' x' = map_sum id (\<lambda>y. (y, l', g')) (L l' x')" for l' g' x'
    unfolding L_def using layer_forward_eval [of l' g' x' g2]
    by (cases "layer_forward False l' g2 x'") simp_all
  note f' = f [symmetric]
  show ?thesis
  proof (cases "aux m")
    case False
    then show ?thesis
      by (simp add: FCN8s_forward_def FCNHead_forward_def assms(1) f' s l bindE_map_sum map_sum_bindE)
  next
    case True
    show ?thesis
    proof (cases "auxlayer m")
      case None
      with True show ?thesis
        by (simp add: FCN8s_forward_def FCNHead_forward_def assms(1) f' s l bindE_map_sum map_sum_bindE)
    next
      case (Some al)
      with True show ?thesis
        by (simp add: FCN8s_forward_def FCNHead_forward_def assms(1) f' s l bindE_map_sum map_sum_bindE
            auxlayer_update_same)
    qed
  qed
qed

lemma second_run:
  assumes "f m g = map_sum id (\<lambda>r. (fst r, m, g)) (f m g)"
  shows "bindE (f m g) (\<lambda>(outs, m', g'). f m' g') = f m g"
proof (cases "f m g")
  case (Inl e)
  then show ?thesis by simp
next
  case (Inr r)
  with assms have "r = (fst r, m, g)" by simp
  then obtain outs where "r = (outs, m, g)" by blast
  with Inr show ?thesis by simp
qed

text \<open>
  Claim C8. In evaluation mode (\<^verbatim>\<open>training\<close> false), the forward pass of each of the three
  variants returns the outputs, or raises the exception, that it returns or raises from any
  other state of the random generator, and it returns the model and the generator as
  they were: the result is a function of the input and of the parameters and buffers of
  the model only, and nothing is changed by the call. A second forward pass on the same
  input, run after the first, hence gives the outputs of the first. Tensor entries are
  real numbers here, so the statement says nothing about the order of floating-point
  operations.
\<close>

theorem eval_forward_is_deterministic:
  assumes "\<not> training m32"
    and "\<not> training m16" and "features m16 = pool4 m16 @ pool5 m16"
    and "\<not> training m8" and "features m8 = pool3 m8 @ pool4 m8 @ pool5 m8"
  shows "FCN32s_forward m32 g x = map_sum id (\<lambda>r. (fst r, m32, g)) (FCN32s_forward m32 g2 x)
       \<and> FCN16s_forward m16 g x = map_sum id (\<lambda>r. (fst r, m16, g)) (FCN16s_forward m16 g2 x)
       \<and> FCN8s_forward m8 g x = map_sum id (\<lambda>r. (fst r, m8, g)) (FCN8s_forward m8 g2 x)
       \<and> bindE (FCN32s_forward m32 g x) (\<lambda>(outs, m', g'). FCN32s_forward m' g' x)
           = FCN32s_forward m32 g x
       \<and> bindE (FCN16s_forward m16 g x) (\<lambda>(outs, m', g'). FCN16s_forward m' g' x)
           = FCN16s_forward m16 g x
       \<and> bindE (FCN8s_forward m8 g x) (\<lambda>(outs, m', g'). FCN8s_forward m' g' x)
           = FCN8s_forward m8 g x"
proof -
  note e32 = FCN32s_forward_eval [OF assms(1)]
  note e16 = FCN16s_forward_eval [OF assms(2) assms(3)]
  note e8 = FCN8s_forward_eval [OF assms(4) assms(5)]
  have 4: "bindE (FCN32s_forward m32 g x) (\<lambda>(outs, m', g'). FCN32s_forward m' g' x)
           = FCN32s_forward m32 g x"
    by (rule second_run [of "\<lambda>m g. FCN32s_forward m g x"]) (rule e32)
  have 5: "bindE (FCN16s_forward m16 g x) (\<lambda>(outs, m', g'). FCN16s_forward m' g' x)
           = FCN16s_forward m16 g x"
    by (rule second_run [of "\<lambda>m g. FCN16s_forward m g x"]) (rule e16)
  have 6: "bindE (FCN8s_forward m8 g x) (\<lambda>(outs, m', g'). FCN8s_forward m' g' x)
           = FCN8s_forward m8 g x"
    by (rule second_run [of "\<lambda>m g. FCN8s_forward m g x"]) (rule e8)
  show ?thesis
    by (rule conjI [OF e32 conjI [OF e16 conjI [OF e8 conjI [OF 4 conjI [OF 5 6]]]]])
qed

theorem eval_forward_is_deterministic_witness:
  "\<not> training (example_fcn32s\<lparr>training := False\<rparr>)
   \<and> \<not> training (example_fcn16s\<lparr>training := False\<rparr>)
   \<and> features (example_fcn16s\<lparr>training := False\<rparr>)
       = pool4 (example_fcn16s\<lparr>training := False\<rparr>) @ pool5 (example_fcn16s\<lparr>training := False\<rparr>)
   \<and> \<not> training (example_fcn8s\<lparr>training := False\<rparr>)
   \<and> features (example_fcn8s\<lparr>training := False\<rparr>)
       = pool3 (example_fcn8s\<lparr>training := False\<rparr>) @ pool4 (example_fcn8s\<lparr>training := False\<rparr>)
         @ pool5 (example_fcn8s\<lparr>training := False\<rparr>)
   \<and> FCN32s_forward (example_fcn32s\<lparr>training := False\<rparr>) example_rng example_input
       = map_sum id (\<lambda>r. (fst r, example_fcn32s\<lparr>training := False\<rparr>, example_rng))
           (FCN32s_forward (example_fcn32s\<lparr>training := False\<rparr>) (\<lambda>i n c y x. True) example_input)
   \<and> FCN16s_forward (example_fcn16s\<lparr>training := False\<rparr>) example_rng example_input
       = map_sum id (\<lambda>r. (fst r, example_fcn16s\<lparr>training := False\<rparr>, example_rng))
           (FCN16s_forward (example_fcn16s\<lparr>training := False\<rparr>) (\<lambda>i n c y x. True) example_input)
   \<and> FCN8s_forward (example_fcn8s\<lparr>training := False\<rparr>) example_rng example_input
       = map_sum id (\<lambda>r. (fst r, example_fcn8s\<lparr>training := False\<rparr>, example_rng))
           (FCN8s_forward (example_fcn8s\<lparr>training := False\<rparr>) (\<lambda>i n c y x. True) example_input)
   \<and> bindE (FCN8s_forward (example_fcn8s\<lparr>training := False\<rparr>) example_rng example_input)
        (\<lambda>(outs, m', g'). FCN8s_forward m' g' example_input)
       = FCN8s_forward (example_fcn8s\<lparr>training := False\<rparr>) example_rng example_input"
proof -
  have h1: "\<not> training (example_fcn32s\<lparr>training := False\<rparr>)"
    by simp
  have h2: "\<not> training (example_fcn16s\<lparr>training := False\<rparr>)"
    by simp
  have h3: "features (example_fcn16s\<lparr>training := False\<rparr>)
       = pool4 (example_fcn16s\<lparr>training := False\<rparr>) @ pool5 (example_fcn16s\<lparr>training := False\<rparr>)"
    by (simp add: example_fcn16s_def)
  have h4: "\<not> training (example_fcn8s\<lparr>training := False\<rparr>)"
    by simp
  have h5: "features (example_fcn8s\<lparr>training := False\<rparr>)
       = pool3 (example_fcn8s\<lparr>training := False\<rparr>) @ pool4 (example_fcn8s\<lparr>training := False\<rparr>)
         @ pool5 (example_fcn8s\<lparr>training := False\<rparr>)"
    by (simp add: example_fcn8s_def slices3)
  show ?thesis
    using h1 h2 h3 h4 h5
      eval_forward_is_deterministic [OF h1 h2 h3 h4 h5, of example_rng example_input
        "\<lambda>i n c y x. True"]
    by blast
qed

section \<open>The sizes of the outputs of the forward passes\<close>

lemma bindE_Inr: "bindE m f = Inr r \<longleftrightarrow> (\<exists>v. m = Inr v \<and> f v = Inr r)"
  by (cases m) simp_all

lemma interpolate_Inr:
  "interpolate a sz = Inr y \<Longrightarrow>
     bsz y = bsz a \<and> chans y = chans a \<and> size2 y = sz \<and> 0 < hgt a \<and> 0 < wid a
     \<and> 0 < fst sz \<and> 0 < snd sz"
  by (cases sz) (auto simp: interpolate_def size2_def split: if_splits)

lemma Sequential_forward_dims:
  "Sequential_forward t ls g x = Inr (y, ls', g') \<Longrightarrow>
     Sequential_shape t (map arch_of ls) (dims x) = Inr (dims y)"
  using Sequential_forward_shape [of t ls g x] by simp

lemma layer_shape_bsz: "layer_shape t a (n, c, h, w) = Inr (n', c', h', w') \<Longrightarrow> n' = n"
  by (cases a) (auto split: if_splits)

lemma Sequential_shape_bsz:
  "Sequential_shape t as (n, c, h, w) = Inr (n', c', h', w') \<Longrightarrow> n' = n"
proof (induction as arbitrary: n c h w)
  case Nil
  then show ?case by simp
next
  case (Cons a as)
  from Cons.prems obtain s where s: "layer_shape t a (n, c, h, w) = Inr s"
    and r: "Sequential_shape t as s = Inr (n', c', h', w')"
    by (auto split: sum.splits)
  obtain n1 c1 h1 w1 where s1: "s = (n1, c1, h1, w1)" by (cases s)
  from layer_shape_bsz [of t a n c h w n1 c1 h1 w1] s s1 have "n1 = n" by simp
  with Cons.IH [of n1 c1 h1 w1] r s1 show ?case by simp
qed

lemma Sequential_forward_bsz:
  assumes "Sequential_forward t ls g x = Inr (y, ls', g')"
  shows "bsz y = bsz x"
  using Sequential_forward_dims [OF assms]
    Sequential_shape_bsz [of t "map arch_of ls" "bsz x" "chans x" "hgt x" "wid x"
      "bsz y" "chans y" "hgt y" "wid y"]
  by (simp add: dims_def)

lemma projector_dims:
  assumes "arch_of l = AConv2d cin ch 1 0 True"
    and "layer_forward t l g x = Inr (y, l', g')"
  shows "dims y = (bsz x, ch, hgt x, wid x) \<and> chans x = cin \<and> arch_of l' = arch_of l"
proof -
  from layer_forward_shape [of t l g x] assms
  have "layer_shape t (AConv2d cin ch 1 0 True) (dims x) = Inr (dims y)" by simp
  then have "dims y = (bsz x, ch, hgt x, wid x) \<and> chans x = cin"
    by (auto simp: dims_def split: if_splits)
  with layer_forward_arch [OF assms(2)] show ?thesis by simp
qed

lemma FCN32s_forward_stages:
  assumes "FCN32s_forward m g x = Inr (outs, m', g')"
  shows "\<exists>pool5_v features' g1 out0 head' g2 out.
        Sequential_forward (training m) (features m) g x = Inr (pool5_v, features', g1)
        \<and> FCNHead_forward (training m) (head m) g1 pool5_v = Inr (out0, head', g2)
        \<and> interpolate out0 (size2 x) = Inr out
        \<and> (if aux m
           then (\<exists>al auxout0 al' g3 auxout.
                  auxlayer m = Some al
                  \<and> FCNHead_forward (training m) al g2 pool5_v = Inr (auxout0, al', g3)
                  \<and> interpolate auxout0 (size2 x) = Inr auxout
                  \<and> outs = [out, auxout])
           else outs = [out])"
  using assms
  by (auto simp: FCN32s_forward_def bindE_Inr split: option.splits if_splits)

lemma FCN16s_forward_stages:
  assumes "FCN16s_forward m g x = Inr (outs, m', g')"
  shows "\<exists>pool4_v pool4' g1 pool5_v pool5' g2 score_fr head' g3 score_pool4_v score_pool4' g4
          upscore2 fuse_pool4 out.
        Sequential_forward (training m) (pool4 m) g x = Inr (pool4_v, pool4', g1)
        \<and> Sequential_forward (training m) (pool5 m) g1 pool4_v = Inr (pool5_v, pool5', g2)
        \<and> FCNHead_forward (training m) (head m) g2 pool5_v = Inr (score_fr, head', g3)
        \<and> layer_forward (training m) (score_pool4 m) g3 pool4_v
            = Inr (score_pool4_v, score_pool4', g4)
        \<and> interpolate score_fr (size2 score_pool4_v) = Inr upscore2
        \<and> tensor_add upscore2 score_pool4_v = Inr fuse_pool4
        \<and> interpolate fuse_pool4 (size2 x) = Inr out
        \<and> (if aux m
           then (\<exists>al auxout0 al' g5 auxout.
                  auxlayer m = Some al
                  \<and> FCNHead_forward (training m) al g4 pool5_v = Inr (auxout0, al', g5)
                  \<and> interpolate auxout0 (size2 x) = Inr auxout
                  \<and> outs = [out, auxout])
           else outs = [out])"
  using assms
  by (auto simp: FCN16s_forward_def bindE_Inr split: option.splits if_splits)

lemma head_out_dims:
  assumes "map arch_of block = FCNHead_arch 512 nclass"
    and "FCNHead_forward t block g v = Inr (out0, block', g')"
    and "interpolate out0 (size2 x) = Inr out"
  shows "dims out = (bsz v, nclass, hgt x, wid x)"
  using FCNHead_forward_dims [OF assms(1) assms(2)] interpolate_Inr [OF assms(3)]
  by (simp add: dims_def size2_def)

lemma fuse_dims:
  assumes "dims score = (n, c, h, w)"
    and "dims skip = (n, c, hs, ws)"
    and "interpolate score (size2 skip) = Inr up"
    and "tensor_add up skip = Inr fuse"
  shows "fuse = up\<lparr>val := (\<lambda>i j y xx. val up i j y xx + val skip i j y xx)\<rparr>
       \<and> dims fuse = dims skip \<and> dims up = dims skip"
proof -
  from interpolate_Inr [OF assms(3)] assms(1) assms(2) have d: "dims up = dims skip"
    by (simp add: dims_def size2_def)
  from tensor_add_same [OF d] assms(4) d show ?thesis
    by (auto simp: dims_def)
qed

lemma FCN32s_forward_dims:
  assumes wf: "FCN32s_wf nclass m"
    and run: "FCN32s_forward m g x = Inr (outs, m', g')"
  shows "length outs = (if aux m then 2 else 1)
       \<and> (\<forall>out\<in>set outs. dims out = (bsz x, nclass, hgt x, wid x))"
proof -
  from FCN32s_forward_stages [OF run] obtain pool5_v features' g1 out0 head' g2 out
    where s1: "Sequential_forward (training m) (features m) g x = Inr (pool5_v, features', g1)"
      and s2: "FCNHead_forward (training m) (head m) g1 pool5_v = Inr (out0, head', g2)"
      and s3: "interpolate out0 (size2 x) = Inr out"
      and s4: "if aux m
           then (\<exists>al auxout0 al' g3 auxout.
                  auxlayer m = Some al
                  \<and> FCNHead_forward (training m) al g2 pool5_v = Inr (auxout0, al', g3)
                  \<and> interpolate auxout0 (size2 x) = Inr auxout
                  \<and> outs = [out, auxout])
           else outs = [out]"
    by blast
  from wf have h: "map arch_of (head m) = FCNHead_arch 512 nclass"
    by (simp add: FCN32s_wf_def)
  have b: "bsz pool5_v = bsz x" by (rule Sequential_forward_bsz [OF s1])
  from head_out_dims [OF h s2 s3] b have o: "dims out = (bsz x, nclass, hgt x, wid x)" by simp
  show ?thesis
  proof (cases "aux m")
    case False
    with s4 o show ?thesis by simp
  next
    case True
    with s4 obtain al auxout0 al' g3 auxout where a1: "auxlayer m = Some al"
      and a2: "FCNHead_forward (training m) al g2 pool5_v = Inr (auxout0, al', g3)"
      and a3: "interpolate auxout0 (size2 x) = Inr auxout"
      and a4: "outs = [out, auxout]"
      by auto
    from wf True a1 have ha: "map arch_of al = FCNHead_arch 512 nclass"
      by (simp add: FCN32s_wf_def)
    from head_out_dims [OF ha a2 a3] b have "dims auxout = (bsz x, nclass, hgt x, wid x)" by simp
    with True a4 o show ?thesis by simp
  qed
qed

lemma FCN16s_forward_dims:
  assumes wf: "FCN16s_wf nclass m"
    and run: "FCN16s_forward m g x = Inr (outs, m', g')"
  shows "length outs = (if aux m then 2 else 1)
       \<and> (\<forall>out\<in>set outs. dims out = (bsz x, nclass, hgt x, wid x))"
proof -
  from FCN16s_forward_stages [OF run] obtain pool4_v pool4' g1 pool5_v pool5' g2 score_fr head' g3
      score_pool4_v score_pool4' g4 upscore2 fuse_pool4 out
    where s1: "Sequential_forward (training m) (pool4 m) g x = Inr (pool4_v, pool4', g1)"
      and s2: "Sequential_forward (training m) (pool5 m) g1 pool4_v = Inr (pool5_v, pool5', g2)"
      and s3: "FCNHead_forward (training m) (head m) g2 pool5_v = Inr (score_fr, head', g3)"
      and s4: "layer_forward (training m) (score_pool4 m) g3 pool4_v
            = Inr (score_pool4_v, score_pool4', g4)"
      and s5: "interpolate score_fr (size2 score_pool4_v) = Inr upscore2"
      and s6: "tensor_add upscore2 score_pool4_v = Inr fuse_pool4"
      and s7: "interpolate fuse_pool4 (size2 x) = Inr out"
      and s8: "if aux m
           then (\<exists>al auxout0 al' g5 auxout.
                  auxlayer m = Some al
                  \<and> FCNHead_forward (training m) al g4 pool5_v = Inr (auxout0, al', g5)
                  \<and> interpolate auxout0 (size2 x) = Inr auxout
                  \<and> outs = [out, auxout])
           else outs = [out]"
    by blast
  from wf have w32: "FCN32s_wf nclass m"
    and h: "map arch_of (head m) = FCNHead_arch 512 nclass"
    and p: "arch_of (score_pool4 m) = AConv2d 512 nclass 1 0 True"
    by (simp_all add: FCN16s_wf_def FCN32s_wf_def)
  have b4: "bsz pool4_v = bsz x" by (rule Sequential_forward_bsz [OF s1])
  have b5: "bsz pool5_v = bsz pool4_v" by (rule Sequential_forward_bsz [OF s2])
  from FCNHead_forward_dims [OF h s3] b5 b4
  have d1: "dims score_fr = (bsz x, nclass, hgt pool5_v, wid pool5_v)" by simp
  from projector_dims [OF p s4] b4
  have d2: "dims score_pool4_v = (bsz x, nclass, hgt pool4_v, wid pool4_v)" by simp
  from fuse_dims [OF d1 d2 s5 s6, THEN conjunct2] d2
  have d3: "dims fuse_pool4 = (bsz x, nclass, hgt pool4_v, wid pool4_v)" by simp
  from interpolate_Inr [OF s7] d3 have o: "dims out = (bsz x, nclass, hgt x, wid x)"
    by (simp add: dims_def size2_def)
  show ?thesis
  proof (cases "aux m")
    case False
    with s8 o show ?thesis by simp
  next
    case True
    with s8 obtain al auxout0 al' g5 auxout where a1: "auxlayer m = Some al"
      and a2: "FCNHead_forward (training m) al g4 pool5_v = Inr (auxout0, al', g5)"
      and a3: "interpolate auxout0 (size2 x) = Inr auxout"
      and a4: "outs = [out, auxout]"
      by auto
    from w32 True a1 have ha: "map arch_of al = FCNHead_arch 512 nclass"
      by (simp add: FCN32s_wf_def)
    from head_out_dims [OF ha a2 a3] b5 b4 have "dims auxout = (bsz x, nclass, hgt x, wid x)"
      by simp
    with True a4 o show ?thesis by simp
  qed
qed

lemma FCN8s_forward_stages:
  assumes "FCN8s_forward m g x = Inr (outs, m', g')"
  shows "\<exists>pool3_v pool3' g1 pool4_v pool4' g2 pool5_v pool5' g3 score_fr head' g4
          score_pool4_v score_pool4' g5 score_pool3_v score_pool3' g6
          upscore2 fuse_pool4 upscore_pool4 fuse_pool3 out.
        Sequential_forward (training m) (pool3 m) g x = Inr (pool3_v, pool3', g1)
        \<and> Sequential_forward (training m) (pool4 m) g1 pool3_v = Inr (pool4_v, pool4', g2)
        \<and> Sequential_forward (training m) (pool5 m) g2 pool4_v = Inr (pool5_v, pool5', g3)
        \<and> FCNHead_forward (training m) (head m) g3 pool5_v = Inr (score_fr, head', g4)
        \<and> layer_forward (training m) (score_pool4 m) g4 pool4_v
            = Inr (score_pool4_v, score_pool4', g5)
        \<and> layer_forward (training m) (score_pool3 m) g5 pool3_v
            = Inr (score_pool3_v, score_pool3', g6)
        \<and> interpolate score_fr (size2 score_pool4_v) = Inr upscore2
        \<and> tensor_add upscore2 score_pool4_v = Inr fuse_pool4
        \<and> interpolate fuse_pool4 (size2 score_pool3_v) = Inr upscore_pool4
        \<and> tensor_add upscore_pool4 score_pool3_v = Inr fuse_pool3
        \<and> interpolate fuse_pool3 (size2 x) = Inr out
        \<and> (if aux m
           then (\<exists>al auxout0 al' g7 auxout.
                  auxlayer m = Some al
                  \<and> FCNHead_forward (training m) al g6 pool5_v = Inr (auxout0, al', g7)
                  \<and> interpolate auxout0 (size2 x) = Inr auxout
                  \<and> outs = [out, auxout])
           else outs = [out])"
  using assms
  by (auto simp: FCN8s_forward_def bindE_Inr split: option.splits if_splits)

lemma FCN8s_forward_dims:
  assumes wf: "FCN8s_wf nclass m"
    and run: "FCN8s_forward m g x = Inr (outs, m', g')"
  shows "length outs = (if aux m then 2 else 1)
       \<and> (\<forall>out\<in>set outs. dims out = (bsz x, nclass, hgt x, wid x))"
proof -
  from FCN8s_forward_stages [OF run] obtain pool3_v pool3' g1 pool4_v pool4' g2 pool5_v pool5' g3
      score_fr head' g4 score_pool4_v score_pool4' g5 score_pool3_v score_pool3' g6
      upscore2 fuse_pool4 upscore_pool4 fuse_pool3 out
    where s0: "Sequential_forward (training m) (pool3 m) g x = Inr (pool3_v, pool3', g1)"
      and s1: "Sequential_forward (training m) (pool4 m) g1 pool3_v = Inr (pool4_v, pool4', g2)"
      and s2: "Sequential_forward (training m) (pool5 m) g2 pool4_v = Inr (pool5_v, pool5', g3)"
      and s3: "FCNHead_forward (training m) (head m) g3 pool5_v = Inr (score_fr, head', g4)"
      and s4: "layer_forward (training m) (score_pool4 m) g4 pool4_v
            = Inr (score_pool4_v, score_pool4', g5)"
      and s4': "layer_forward (training m) (score_pool3 m) g5 pool3_v
            = Inr (score_pool3_v, score_pool3', g6)"
      and s5: "interpolate score_fr (size2 score_pool4_v) = Inr upscore2"
      and s6: "tensor_add upscore2 score_pool4_v = Inr fuse_pool4"
      and s5': "interpolate fuse_pool4 (size2 score_pool3_v) = Inr upscore_pool4"
      and s6': "tensor_add upscore_pool4 score_pool3_v = Inr fuse_pool3"
      and s7: "interpolate fuse_pool3 (size2 x) = Inr out"
      and s8: "if aux m
           then (\<exists>al auxout0 al' g7 auxout.
                  auxlayer m = Some al
                  \<and> FCNHead_forward (training m) al g6 pool5_v = Inr (auxout0, al', g7)
                  \<and> interpolate auxout0 (size2 x) = Inr auxout
                  \<and> outs = [out, auxout])
           else outs = [out]"
    by (elim exE conjE) (rule that)
  from wf have w32: "FCN32s_wf nclass m"
    and h: "map arch_of (head m) = FCNHead_arch 512 nclass"
    and p: "arch_of (score_pool4 m) = AConv2d 512 nclass 1 0 True"
    and p': "arch_of (score_pool3 m) = AConv2d 256 nclass 1 0 True"
    by (simp_all add: FCN8s_wf_def FCN32s_wf_def)
  have b3: "bsz pool3_v = bsz x" by (rule Sequential_forward_bsz [OF s0])
  have b4: "bsz pool4_v = bsz pool3_v" by (rule Sequential_forward_bsz [OF s1])
  have b5: "bsz pool5_v = bsz pool4_v" by (rule Sequential_forward_bsz [OF s2])
  from FCNHead_forward_dims [OF h s3] b5 b4 b3
  have d1: "dims score_fr = (bsz x, nclass, hgt pool5_v, wid pool5_v)" by simp
  from projector_dims [OF p s4] b4 b3
  have d2: "dims score_pool4_v = (bsz x, nclass, hgt pool4_v, wid pool4_v)" by simp
  from projector_dims [OF p' s4'] b3
  have d2': "dims score_pool3_v = (bsz x, nclass, hgt pool3_v, wid pool3_v)" by simp
  from fuse_dims [OF d1 d2 s5 s6, THEN conjunct2] d2
  have d3: "dims fuse_pool4 = (bsz x, nclass, hgt pool4_v, wid pool4_v)" by simp
  from fuse_dims [OF d3 d2' s5' s6', THEN conjunct2] d2'
  have d3': "dims fuse_pool3 = (bsz x, nclass, hgt pool3_v, wid pool3_v)" by simp
  from interpolate_Inr [OF s7] d3' have o: "dims out = (bsz x, nclass, hgt x, wid x)"
    by (simp add: dims_def size2_def)
  show ?thesis
  proof (cases "aux m")
    case False
    with s8 o show ?thesis by simp
  next
    case True
    with s8 obtain al auxout0 al' g7 auxout where a1: "auxlayer m = Some al"
      and a2: "FCNHead_forward (training m) al g6 pool5_v = Inr (auxout0, al', g7)"
      and a3: "interpolate auxout0 (size2 x) = Inr auxout"
      and a4: "outs = [out, auxout]"
      by auto
    from w32 True a1 have ha: "map arch_of al = FCNHead_arch 512 nclass"
      by (simp add: FCN32s_wf_def)
    from head_out_dims [OF ha a2 a3] b5 b4 b3 have "dims auxout = (bsz x, nclass, hgt x, wid x)"
      by simp
    with True a4 o show ?thesis by simp
  qed
qed

lemma head_ok:
  assumes "map arch_of block = FCNHead_arch 512 nclass"
    and "dims v = (n, 512, h, w)" and "0 < h" and "0 < w" and "0 < nclass"
    and "\<not> (t \<and> n * h * w = 1)" and "0 < hgt x" and "0 < wid x"
  shows "\<exists>out0 block' g' out. FCNHead_forward t block g v = Inr (out0, block', g')
           \<and> interpolate out0 (size2 x) = Inr out \<and> dims out0 = (n, nclass, h, w)"
proof -
  from assms(2) have v: "bsz v = n" "chans v = 512" "hgt v = h" "wid v = w"
    by (simp_all add: dims_def)
  from FCNHead_forward_ok [OF assms(1), of v t g] v assms
  obtain out0 block' g' where r: "FCNHead_forward t block g v = Inr (out0, block', g')"
    by auto
  from FCNHead_forward_dims [OF assms(1) r] v have d: "dims out0 = (n, nclass, h, w)" by simp
  with interpolate_ok [of out0 "hgt x" "wid x"] assms
  obtain out where "interpolate out0 (size2 x) = Inr out"
    by (auto simp: dims_def size2_def)
  with r d show ?thesis by blast
qed

lemma projector_ok:
  assumes "arch_of l = AConv2d cin ch 1 0 True"
    and "dims v = (n, cin, h, w)" and "0 < cin" and "0 < ch" and "0 < h" and "0 < w"
  shows "\<exists>y l'. layer_forward t l g v = Inr (y, l', g) \<and> dims y = (n, ch, h, w)"
proof -
  from assms have "layer_shape t (arch_of l) (dims v) = Inr (n, ch, h, w)" by simp
  from layer_forward_ok [OF this, of g] obtain y l' g'
    where r: "layer_forward t l g v = Inr (y, l', g')" and d: "dims y = (n, ch, h, w)"
    by blast
  from r assms(1) have "g' = g" by (cases l) (auto split: sum.splits)
  with r d show ?thesis by blast
qed

lemma fuse_ok:
  assumes "dims score = (n, c, h, w)" and "0 < h" and "0 < w"
    and "dims skip = (n, c, hs, ws)" and "0 < hs" and "0 < ws"
  shows "\<exists>up fuse. interpolate score (size2 skip) = Inr up \<and> tensor_add up skip = Inr fuse
           \<and> dims fuse = (n, c, hs, ws)"
proof -
  from interpolate_ok [of score hs ws] assms
  obtain up where u: "interpolate score (size2 skip) = Inr up" and d: "dims up = dims skip"
    by (auto simp: dims_def size2_def)
  from tensor_add_same [OF d] d assms(4) show ?thesis
    using u by (auto simp: dims_def)
qed

lemma FCN32s_forward_ok:
  assumes wf: "FCN32s_wf nclass m"
    and bb: "Sequential_shape (training m) (map arch_of (features m)) (dims x) = Inr (n, 512, h5, w5)"
    and pos: "0 < hgt x" "0 < wid x" "0 < nclass"
    and bn: "\<not> (training m \<and> n * h5 * w5 = 1)"
  shows "\<exists>outs m' g'. FCN32s_forward m g x = Inr (outs, m', g')"
proof -
  from Sequential_forward_ok [OF bb, of g] obtain pool5_v fs' g1
    where s1: "Sequential_forward (training m) (features m) g x = Inr (pool5_v, fs', g1)"
      and d5: "dims pool5_v = (n, 512, h5, w5)"
    by blast
  from Sequential_shape_pos [of "training m" "map arch_of (features m)" "bsz x" "chans x"
      "hgt x" "wid x" n 512 h5 w5] bb pos
  have p5: "0 < h5" "0 < w5" by (simp_all add: dims_def)
  from wf have h: "map arch_of (head m) = FCNHead_arch 512 nclass"
    by (simp add: FCN32s_wf_def)
  from head_ok [OF h d5 p5 pos(3) bn pos(1) pos(2), of g1] obtain out0 head' g2 out
    where s2: "FCNHead_forward (training m) (head m) g1 pool5_v = Inr (out0, head', g2)"
      and s3: "interpolate out0 (size2 x) = Inr out"
    by blast
  show ?thesis
  proof (cases "aux m")
    case False
    with s1 s2 s3 show ?thesis by (simp add: FCN32s_forward_def)
  next
    case True
    with wf obtain al where a1: "auxlayer m = Some al"
      and ha: "map arch_of al = FCNHead_arch 512 nclass"
      by (auto simp: FCN32s_wf_def)
    from head_ok [OF ha d5 p5 pos(3) bn pos(1) pos(2), of g2] obtain auxout0 al' g3 auxout
      where "FCNHead_forward (training m) al g2 pool5_v = Inr (auxout0, al', g3)"
        and "interpolate auxout0 (size2 x) = Inr auxout"
      by blast
    with True a1 s1 s2 s3 show ?thesis by (simp add: FCN32s_forward_def)
  qed
qed

lemma FCN16s_forward_ok:
  assumes wf: "FCN16s_wf nclass m"
    and b4: "Sequential_shape (training m) (map arch_of (pool4 m)) (dims x) = Inr (n, 512, h4, w4)"
    and b5: "Sequential_shape (training m) (map arch_of (pool5 m)) (n, 512, h4, w4)
               = Inr (n, 512, h5, w5)"
    and pos: "0 < hgt x" "0 < wid x" "0 < nclass"
    and bn: "\<not> (training m \<and> n * h5 * w5 = 1)"
  shows "\<exists>outs m' g'. FCN16s_forward m g x = Inr (outs, m', g')"
proof -
  from Sequential_forward_ok [OF b4, of g] obtain pool4_v pool4' g1
    where s1: "Sequential_forward (training m) (pool4 m) g x = Inr (pool4_v, pool4', g1)"
      and d4: "dims pool4_v = (n, 512, h4, w4)"
    by blast
  from Sequential_shape_pos [of "training m" "map arch_of (pool4 m)" "bsz x" "chans x"
      "hgt x" "wid x" n 512 h4 w4] b4 pos
  have p4: "0 < h4" "0 < w4" by (simp_all add: dims_def)
  from b5 d4 have "Sequential_shape (training m) (map arch_of (pool5 m)) (dims pool4_v)
      = Inr (n, 512, h5, w5)" by simp
  from Sequential_forward_ok [OF this, of g1] obtain pool5_v pool5' g2
    where s2: "Sequential_forward (training m) (pool5 m) g1 pool4_v = Inr (pool5_v, pool5', g2)"
      and d5: "dims pool5_v = (n, 512, h5, w5)"
    by blast
  from Sequential_shape_pos [OF b5 p4] have p5: "0 < h5" "0 < w5" by simp_all
  from wf have w32: "FCN32s_wf nclass m"
    and h: "map arch_of (head m) = FCNHead_arch 512 nclass"
    and p: "arch_of (score_pool4 m) = AConv2d 512 nclass 1 0 True"
    by (simp_all add: FCN16s_wf_def FCN32s_wf_def)
  from head_ok [OF h d5 p5 pos(3) bn pos(1) pos(2), of g2] obtain score_fr head' g3 out00
    where s3: "FCNHead_forward (training m) (head m) g2 pool5_v = Inr (score_fr, head', g3)"
      and d6: "dims score_fr = (n, nclass, h5, w5)"
    by blast
  have c512: "0 < (512::nat)" by simp
  from projector_ok [OF p d4 c512 pos(3) p4, of "training m" g3] obtain score_pool4_v score_pool4'
    where s4: "layer_forward (training m) (score_pool4 m) g3 pool4_v
        = Inr (score_pool4_v, score_pool4', g3)"
      and d7: "dims score_pool4_v = (n, nclass, h4, w4)"
    by blast
  from fuse_ok [OF d6 p5 d7 p4] obtain upscore2 fuse_pool4
    where s5: "interpolate score_fr (size2 score_pool4_v) = Inr upscore2"
      and s6: "tensor_add upscore2 score_pool4_v = Inr fuse_pool4"
      and d8: "dims fuse_pool4 = (n, nclass, h4, w4)"
    by blast
  from interpolate_ok [of fuse_pool4 "hgt x" "wid x"] d8 p4 pos
  obtain out where s7: "interpolate fuse_pool4 (size2 x) = Inr out"
    by (auto simp: dims_def size2_def)
  show ?thesis
  proof (cases "aux m")
    case False
    with s1 s2 s3 s4 s5 s6 s7 show ?thesis by (simp add: FCN16s_forward_def)
  next
    case True
    with w32 obtain al where a1: "auxlayer m = Some al"
      and ha: "map arch_of al = FCNHead_arch 512 nclass"
      by (auto simp: FCN32s_wf_def)
    from head_ok [OF ha d5 p5 pos(3) bn pos(1) pos(2), of g3] obtain auxout0 al' g5 auxout
      where "FCNHead_forward (training m) al g3 pool5_v = Inr (auxout0, al', g5)"
        and "interpolate auxout0 (size2 x) = Inr auxout"
      by blast
    with True a1 s1 s2 s3 s4 s5 s6 s7 show ?thesis by (simp add: FCN16s_forward_def)
  qed
qed

lemma FCN8s_forward_ok:
  assumes wf: "FCN8s_wf nclass m"
    and b3: "Sequential_shape (training m) (map arch_of (pool3 m)) (dims x) = Inr (n, 256, h3, w3)"
    and b4: "Sequential_shape (training m) (map arch_of (pool4 m)) (n, 256, h3, w3)
               = Inr (n, 512, h4, w4)"
    and b5: "Sequential_shape (training m) (map arch_of (pool5 m)) (n, 512, h4, w4)
               = Inr (n, 512, h5, w5)"
    and pos: "0 < hgt x" "0 < wid x" "0 < nclass"
    and bn: "\<not> (training m \<and> n * h5 * w5 = 1)"
  shows "\<exists>outs m' g'. FCN8s_forward m g x = Inr (outs, m', g')"
proof -
  from Sequential_forward_ok [OF b3, of g] obtain pool3_v pool3' g1
    where s0: "Sequential_forward (training m) (pool3 m) g x = Inr (pool3_v, pool3', g1)"
      and d3: "dims pool3_v = (n, 256, h3, w3)"
    by blast
  from Sequential_shape_pos [of "training m" "map arch_of (pool3 m)" "bsz x" "chans x"
      "hgt x" "wid x" n 256 h3 w3] b3 pos
  have p3: "0 < h3" "0 < w3" by (simp_all add: dims_def)
  from b4 d3 have "Sequential_shape (training m) (map arch_of (pool4 m)) (dims pool3_v)
      = Inr (n, 512, h4, w4)" by simp
  from Sequential_forward_ok [OF this, of g1] obtain pool4_v pool4' g2
    where s1: "Sequential_forward (training m) (pool4 m) g1 pool3_v = Inr (pool4_v, pool4', g2)"
      and d4: "dims pool4_v = (n, 512, h4, w4)"
    by blast
  from Sequential_shape_pos [OF b4 p3] have p4: "0 < h4" "0 < w4" by simp_all
  from b5 d4 have "Sequential_shape (training m) (map arch_of (pool5 m)) (dims pool4_v)
      = Inr (n, 512, h5, w5)" by simp
  from Sequential_forward_ok [OF this, of g2] obtain pool5_v pool5' g3
    where s2: "Sequential_forward (training m) (pool5 m) g2 pool4_v = Inr (pool5_v, pool5', g3)"
      and d5: "dims pool5_v = (n, 512, h5, w5)"
    by blast
  from Sequential_shape_pos [OF b5 p4] have p5: "0 < h5" "0 < w5" by simp_all
  from wf have w32: "FCN32s_wf nclass m"
    and h: "map arch_of (head m) = FCNHead_arch 512 nclass"
    and p: "arch_of (score_pool4 m) = AConv2d 512 nclass 1 0 True"
    and p': "arch_of (score_pool3 m) = AConv2d 256 nclass 1 0 True"
    by (simp_all add: FCN8s_wf_def FCN32s_wf_def)
  from head_ok [OF h d5 p5 pos(3) bn pos(1) pos(2), of g3] obtain score_fr head' g4 out00
    where s3: "FCNHead_forward (training m) (head m) g3 pool5_v = Inr (score_fr, head', g4)"
      and d6: "dims score_fr = (n, nclass, h5, w5)"
    by blast
  have c512: "0 < (512::nat)" and c256: "0 < (256::nat)" by simp_all
  from projector_ok [OF p d4 c512 pos(3) p4, of "training m" g4] obtain score_pool4_v score_pool4'
    where s4: "layer_forward (training m) (score_pool4 m) g4 pool4_v
        = Inr (score_pool4_v, score_pool4', g4)"
      and d7: "dims score_pool4_v = (n, nclass, h4, w4)"
    by blast
  from projector_ok [OF p' d3 c256 pos(3) p3, of "training m" g4] obtain score_pool3_v score_pool3'
    where s4': "layer_forward (training m) (score_pool3 m) g4 pool3_v
        = Inr (score_pool3_v, score_pool3', g4)"
      and d7': "dims score_pool3_v = (n, nclass, h3, w3)"
    by blast
  from fuse_ok [OF d6 p5 d7 p4] obtain upscore2 fuse_pool4
    where s5: "interpolate score_fr (size2 score_pool4_v) = Inr upscore2"
      and s6: "tensor_add upscore2 score_pool4_v = Inr fuse_pool4"
      and d8: "dims fuse_pool4 = (n, nclass, h4, w4)"
    by blast
  from fuse_ok [OF d8 p4 d7' p3] obtain upscore_pool4 fuse_pool3
    where s5': "interpolate fuse_pool4 (size2 score_pool3_v) = Inr upscore_pool4"
      and s6': "tensor_add upscore_pool4 score_pool3_v = Inr fuse_pool3"
      and d8': "dims fuse_pool3 = (n, nclass, h3, w3)"
    by blast
  from interpolate_ok [of fuse_pool3 "hgt x" "wid x"] d8' p3 pos
  obtain out where s7: "interpolate fuse_pool3 (size2 x) = Inr out"
    by (auto simp: dims_def size2_def)
  show ?thesis
  proof (cases "aux m")
    case False
    with s0 s1 s2 s3 s4 s4' s5 s6 s5' s6' s7 show ?thesis by (simp add: FCN8s_forward_def)
  next
    case True
    with w32 obtain al where a1: "auxlayer m = Some al"
      and ha: "map arch_of al = FCNHead_arch 512 nclass"
      by (auto simp: FCN32s_wf_def)
    from head_ok [OF ha d5 p5 pos(3) bn pos(1) pos(2), of g4] obtain auxout0 al' g7 auxout
      where "FCNHead_forward (training m) al g4 pool5_v = Inr (auxout0, al', g7)"
        and "interpolate auxout0 (size2 x) = Inr auxout"
      by blast
    with True a1 s0 s1 s2 s3 s4 s4' s5 s6 s5' s6' s7 show ?thesis
      by (simp add: FCN8s_forward_def)
  qed
qed

lemma example_arch:
  "map arch_of example_vgg16 =
     [AConv2d 3 64 3 1 True, AReLU, AConv2d 64 64 3 1 True, AReLU, AMaxPool2d 2 2,
      AConv2d 64 128 3 1 True, AReLU, AConv2d 128 128 3 1 True, AReLU, AMaxPool2d 2 2,
      AConv2d 128 256 3 1 True, AReLU, AConv2d 256 256 3 1 True, AReLU,
      AConv2d 256 256 3 1 True, AReLU, AMaxPool2d 2 2,
      AConv2d 256 512 3 1 True, AReLU, AConv2d 512 512 3 1 True, AReLU,
      AConv2d 512 512 3 1 True, AReLU, AMaxPool2d 2 2,
      AConv2d 512 512 3 1 True, AReLU, AConv2d 512 512 3 1 True, AReLU,
      AConv2d 512 512 3 1 True, AReLU, AMaxPool2d 2 2]"
  by (simp add: example_vgg16_def Conv2d_new_def)

lemma example_wf:
  "FCN32s_wf 21 example_fcn32s" "FCN16s_wf 21 example_fcn16s" "FCN8s_wf 21 example_fcn8s"
  by (simp_all add: FCN32s_wf_def FCN16s_wf_def FCN8s_wf_def example_fcn32s_def example_fcn16s_def
      example_fcn8s_def FCNHead_def FCNHead_arch_def Conv2d_new_def BatchNorm2d_new_def slices3)

lemma example_shapes:
  "Sequential_shape True (map arch_of example_vgg16) (1, 3, 64, 64) = Inr (1, 512, 2, 2)"
  "Sequential_shape True (map arch_of (take 24 example_vgg16)) (1, 3, 64, 64) = Inr (1, 512, 4, 4)"
  "Sequential_shape True (map arch_of (drop 24 example_vgg16)) (1, 512, 4, 4) = Inr (1, 512, 2, 2)"
  "Sequential_shape True (map arch_of (take 17 example_vgg16)) (1, 3, 64, 64) = Inr (1, 256, 8, 8)"
  "Sequential_shape True (map arch_of (drop 17 (take 24 example_vgg16))) (1, 256, 8, 8)
     = Inr (1, 512, 4, 4)"
  by (simp_all add: example_arch take_map [symmetric] drop_map [symmetric])

lemma init_wf:
  "fst (FCN32s_init env nclass backbone a pretrained_base hi ai tr) = Inr m32
     \<Longrightarrow> FCN32s_wf nclass m32"
  "fst (FCN16s_init env nclass backbone a pretrained_base hi si4 ai tr) = Inr m16
     \<Longrightarrow> FCN16s_wf nclass m16"
  "fst (FCN8s_init env nclass backbone a pretrained_base hi si3 si4 ai tr) = Inr m8
     \<Longrightarrow> FCN8s_wf nclass m8"
  by (auto simp: FCN32s_init_def FCN16s_init_def FCN8s_init_def FCN32s_wf_def FCN16s_wf_def
      FCN8s_wf_def FCNHead_def FCNHead_arch_def Conv2d_new_def BatchNorm2d_new_def slices3
      split: if_splits sum.splits)

text \<open>
  Claim C1. Let the heads and the projectors of a model have the architecture that its
  constructor gave them for \<open>nclass\<close> classes (their parameters are arbitrary). Whenever
  the forward pass of one of the three variants returns, it returns one output if
  \<^verbatim>\<open>aux\<close> is false and two if it is true, and every output has the batch size and the
  spatial size of the input and \<open>nclass\<close> channels. The forward pass does return, rather
  than raise, for an input of positive size whenever the backbone accepts the input and
  produces maps of 512 channels at \<^verbatim>\<open>pool4\<close> and \<^verbatim>\<open>pool5\<close> and of 256 channels at \<^verbatim>\<open>pool3\<close>,
  and, in training mode, the deepest map has more than one value per channel (which
  batch normalisation requires).
\<close>

theorem forward_output_sizes:
  assumes "FCN32s_wf nclass m32" and "FCN16s_wf nclass m16" and "FCN8s_wf nclass m8"
  shows "(\<forall>outs m' g'. FCN32s_forward m32 g x = Inr (outs, m', g') \<longrightarrow>
            length outs = (if aux m32 then 2 else 1)
            \<and> (\<forall>out\<in>set outs. dims out = (bsz x, nclass, hgt x, wid x)))
       \<and> (\<forall>outs m' g'. FCN16s_forward m16 g x = Inr (outs, m', g') \<longrightarrow>
            length outs = (if aux m16 then 2 else 1)
            \<and> (\<forall>out\<in>set outs. dims out = (bsz x, nclass, hgt x, wid x)))
       \<and> (\<forall>outs m' g'. FCN8s_forward m8 g x = Inr (outs, m', g') \<longrightarrow>
            length outs = (if aux m8 then 2 else 1)
            \<and> (\<forall>out\<in>set outs. dims out = (bsz x, nclass, hgt x, wid x)))
       \<and> (Sequential_shape (training m32) (map arch_of (features m32)) (dims x)
              = Inr (n, 512, h5, w5)
            \<and> 0 < hgt x \<and> 0 < wid x \<and> 0 < nclass \<and> \<not> (training m32 \<and> n * h5 * w5 = 1) \<longrightarrow>
            (\<exists>outs m' g'. FCN32s_forward m32 g x = Inr (outs, m', g')))
       \<and> (Sequential_shape (training m16) (map arch_of (pool4 m16)) (dims x)
              = Inr (n, 512, h4, w4)
            \<and> Sequential_shape (training m16) (map arch_of (pool5 m16)) (n, 512, h4, w4)
              = Inr (n, 512, h5, w5)
            \<and> 0 < hgt x \<and> 0 < wid x \<and> 0 < nclass \<and> \<not> (training m16 \<and> n * h5 * w5 = 1) \<longrightarrow>
            (\<exists>outs m' g'. FCN16s_forward m16 g x = Inr (outs, m', g')))
       \<and> (Sequential_shape (training m8) (map arch_of (pool3 m8)) (dims x)
              = Inr (n, 256, h3, w3)
            \<and> Sequential_shape (training m8) (map arch_of (pool4 m8)) (n, 256, h3, w3)
              = Inr (n, 512, h4, w4)
            \<and> Sequential_shape (training m8) (map arch_of (pool5 m8)) (n, 512, h4, w4)
              = Inr (n, 512, h5, w5)
            \<and> 0 < hgt x \<and> 0 < wid x \<and> 0 < nclass \<and> \<not> (training m8 \<and> n * h5 * w5 = 1) \<longrightarrow>
            (\<exists>outs m' g'. FCN8s_forward m8 g x = Inr (outs, m', g')))"
proof -
  have 1: "\<forall>outs m' g'. FCN32s_forward m32 g x = Inr (outs, m', g') \<longrightarrow>
            length outs = (if aux m32 then 2 else 1)
            \<and> (\<forall>out\<in>set outs. dims out = (bsz x, nclass, hgt x, wid x))"
    using FCN32s_forward_dims [OF assms(1)] by blast
  have 2: "\<forall>outs m' g'. FCN16s_forward m16 g x = Inr (outs, m', g') \<longrightarrow>
            length outs = (if aux m16 then 2 else 1)
            \<and> (\<forall>out\<in>set outs. dims out = (bsz x, nclass, hgt x, wid x))"
    using FCN16s_forward_dims [OF assms(2)] by blast
  have 3: "\<forall>outs m' g'. FCN8s_forward m8 g x = Inr (outs, m', g') \<longrightarrow>
            length outs = (if aux m8 then 2 else 1)
            \<and> (\<forall>out\<in>set outs. dims out = (bsz x, nclass, hgt x, wid x))"
    using FCN8s_forward_dims [OF assms(3)] by blast
  have 4: "Sequential_shape (training m32) (map arch_of (features m32)) (dims x)
              = Inr (n, 512, h5, w5)
            \<and> 0 < hgt x \<and> 0 < wid x \<and> 0 < nclass \<and> \<not> (training m32 \<and> n * h5 * w5 = 1) \<longrightarrow>
            (\<exists>outs m' g'. FCN32s_forward m32 g x = Inr (outs, m', g'))"
  proof (intro impI, elim conjE)
    assume h: "Sequential_shape (training m32) (map arch_of (features m32)) (dims x)
              = Inr (n, 512, h5, w5)"
      "0 < hgt x" "0 < wid x" "0 < nclass" "\<not> (training m32 \<and> n * h5 * w5 = 1)"
    show "\<exists>outs m' g'. FCN32s_forward m32 g x = Inr (outs, m', g')"
      by (rule FCN32s_forward_ok [OF assms(1) h])
  qed
  have 5: "Sequential_shape (training m16) (map arch_of (pool4 m16)) (dims x)
              = Inr (n, 512, h4, w4)
            \<and> Sequential_shape (training m16) (map arch_of (pool5 m16)) (n, 512, h4, w4)
              = Inr (n, 512, h5, w5)
            \<and> 0 < hgt x \<and> 0 < wid x \<and> 0 < nclass \<and> \<not> (training m16 \<and> n * h5 * w5 = 1) \<longrightarrow>
            (\<exists>outs m' g'. FCN16s_forward m16 g x = Inr (outs, m', g'))"
  proof (intro impI, elim conjE)
    assume h: "Sequential_shape (training m16) (map arch_of (pool4 m16)) (dims x)
              = Inr (n, 512, h4, w4)"
      "Sequential_shape (training m16) (map arch_of (pool5 m16)) (n, 512, h4, w4)
              = Inr (n, 512, h5, w5)"
      "0 < hgt x" "0 < wid x" "0 < nclass" "\<not> (training m16 \<and> n * h5 * w5 = 1)"
    show "\<exists>outs m' g'. FCN16s_forward m16 g x = Inr (outs, m', g')"
      by (rule FCN16s_forward_ok [OF assms(2) h])
  qed
  have 6: "Sequential_shape (training m8) (map arch_of (pool3 m8)) (dims x)
              = Inr (n, 256, h3, w3)
            \<and> Sequential_shape (training m8) (map arch_of (pool4 m8)) (n, 256, h3, w3)
              = Inr (n, 512, h4, w4)
            \<and> Sequential_shape (training m8) (map arch_of (pool5 m8)) (n, 512, h4, w4)
              = Inr (n, 512, h5, w5)
            \<and> 0 < hgt x \<and> 0 < wid x \<and> 0 < nclass \<and> \<not> (training m8 \<and> n * h5 * w5 = 1) \<longrightarrow>
            (\<exists>outs m' g'. FCN8s_forward m8 g x = Inr (outs, m', g'))"
  proof (intro impI, elim conjE)
    assume h: "Sequential_shape (training m8) (map arch_of (pool3 m8)) (dims x)
              = Inr (n, 256, h3, w3)"
      "Sequential_shape (training m8) (map arch_of (pool4 m8)) (n, 256, h3, w3)
              = Inr (n, 512, h4, w4)"
      "Sequential_shape (training m8) (map arch_of (pool5 m8)) (n, 512, h4, w4)
              = Inr (n, 512, h5, w5)"
      "0 < hgt x" "0 < wid x" "0 < nclass" "\<not> (training m8 \<and> n * h5 * w5 = 1)"
    show "\<exists>outs m' g'. FCN8s_forward m8 g x = Inr (outs, m', g')"
      by (rule FCN8s_forward_ok [OF assms(3) h])
  qed
  show ?thesis
    by (rule conjI [OF 1 conjI [OF 2 conjI [OF 3 conjI [OF 4 conjI [OF 5 6]]]]])
qed

lemma example_contract:
  "Sequential_shape (training example_fcn32s) (map arch_of (features example_fcn32s))
     (dims example_input) = Inr (1, 512, 2, 2)"
  "Sequential_shape (training example_fcn16s) (map arch_of (pool4 example_fcn16s))
     (dims example_input) = Inr (1, 512, 4, 4)"
  "Sequential_shape (training example_fcn16s) (map arch_of (pool5 example_fcn16s)) (1, 512, 4, 4)
     = Inr (1, 512, 2, 2)"
  "Sequential_shape (training example_fcn8s) (map arch_of (pool3 example_fcn8s))
     (dims example_input) = Inr (1, 256, 8, 8)"
  "Sequential_shape (training example_fcn8s) (map arch_of (pool4 example_fcn8s)) (1, 256, 8, 8)
     = Inr (1, 512, 4, 4)"
  "Sequential_shape (training example_fcn8s) (map arch_of (pool5 example_fcn8s)) (1, 512, 4, 4)
     = Inr (1, 512, 2, 2)"
  using example_shapes
  by (simp_all add: example_fcn32s_def example_fcn16s_def example_fcn8s_def example_input_def
      dims_def)

theorem forward_output_sizes_witness:
  "FCN32s_wf 21 example_fcn32s \<and> FCN16s_wf 21 example_fcn16s \<and> FCN8s_wf 21 example_fcn8s
   \<and> (\<exists>outs m' g'. FCN32s_forward example_fcn32s example_rng example_input = Inr (outs, m', g')
         \<and> length outs = 2 \<and> (\<forall>out\<in>set outs. dims out = (1, 21, 64, 64)))
   \<and> (\<exists>outs m' g'. FCN16s_forward example_fcn16s example_rng example_input = Inr (outs, m', g')
         \<and> length outs = 2 \<and> (\<forall>out\<in>set outs. dims out = (1, 21, 64, 64)))
   \<and> (\<exists>outs m' g'. FCN8s_forward example_fcn8s example_rng example_input = Inr (outs, m', g')
         \<and> length outs = 2 \<and> (\<forall>out\<in>set outs. dims out = (1, 21, 64, 64)))"
proof -
  note th = forward_output_sizes [OF example_wf(1) example_wf(2) example_wf(3),
      where g = example_rng and x = example_input and n = 1 and ?h5.0 = 2 and ?w5.0 = 2
        and ?h4.0 = 4 and ?w4.0 = 4 and ?h3.0 = 8 and ?w3.0 = 8]
  have x: "bsz example_input = 1" "hgt example_input = 64" "wid example_input = 64"
    "aux example_fcn32s" "aux example_fcn16s" "aux example_fcn8s"
    by (simp_all add: example_input_def example_fcn32s_def example_fcn16s_def example_fcn8s_def)
  have c: "\<not> (training example_fcn32s \<and> (1::nat) * 2 * 2 = 1)"
    "\<not> (training example_fcn16s \<and> (1::nat) * 2 * 2 = 1)"
    "\<not> (training example_fcn8s \<and> (1::nat) * 2 * 2 = 1)" "0 < (21::nat)"
    "0 < hgt example_input" "0 < wid example_input"
    by (simp_all add: example_input_def)
  from th example_contract c
  obtain o32 m32' g32' where r32: "FCN32s_forward example_fcn32s example_rng example_input
      = Inr (o32, m32', g32')"
    by blast
  from th example_contract c
  obtain o16 m16' g16' where r16: "FCN16s_forward example_fcn16s example_rng example_input
      = Inr (o16, m16', g16')"
    by blast
  from th example_contract c
  obtain o8 m8' g8' where r8: "FCN8s_forward example_fcn8s example_rng example_input
      = Inr (o8, m8', g8')"
    by blast
  from th r32 x have d32: "length o32 = 2 \<and> (\<forall>out\<in>set o32. dims out = (1, 21, 64, 64))"
    by simp
  from th r16 x have d16: "length o16 = 2 \<and> (\<forall>out\<in>set o16. dims out = (1, 21, 64, 64))"
    by simp
  from th r8 x have d8: "length o8 = 2 \<and> (\<forall>out\<in>set o8. dims out = (1, 21, 64, 64))"
    by simp
  from example_wf r32 r16 r8 d32 d16 d8 show ?thesis by blast
qed

end
